theory Spec2Isabelle
  imports Main
begin

section \<open>Shared wire types\<close>

text \<open>
  Exceptions are values: a call that may reject or throw yields \<open>Throws m\<close>, where
  \<open>m\<close> is the text the handlers later read off the thrown value
  (\<^verbatim>\<open>error instanceof Error ? error.message : String(error)\<close>).
\<close>

datatype 'a attempt = Returns 'a | Throws string

text \<open>The line feed used by \<^verbatim>\<open>join('\n')\<close> and the template literals.\<close>

definition nl :: string where
  "nl = [CHR 0x0A]"

fun join :: "string \<Rightarrow> string list \<Rightarrow> string" where
  "join sep [] = []"
| "join sep [x] = x"
| "join sep (x # y # ys) = x @ sep @ join sep (y # ys)"

text \<open>\<^verbatim>\<open>String.prototype.includes\<close> on byte strings.\<close>

fun starts_with :: "string \<Rightarrow> string \<Rightarrow> bool" where
  "starts_with s [] = True"
| "starts_with [] (p # ps) = False"
| "starts_with (c # cs) (p # ps) = (c = p \<and> starts_with cs ps)"

fun str_includes :: "string \<Rightarrow> string \<Rightarrow> bool" where
  "str_includes [] pat = (pat = [])"
| "str_includes (c # cs) pat = (starts_with (c # cs) pat \<or> str_includes cs pat)"

record ExecutionRequest =
  q_taskId :: string
  q_repoUrl :: string
  q_baseBranch :: string
  q_branchName :: string
  q_prompt :: string
  q_maxIterations :: nat
  q_callbackUrl :: string

record ExecutionResult =
  r_taskId :: string
  r_success :: bool
  r_prUrl :: "string option"
  r_error :: "string option"
  r_logs :: string
  r_learnings :: "string list"
  r_testsPass :: bool
  r_typecheckPass :: bool
  r_duration :: int

section \<open>Task State Store: the durable object \<^verbatim>\<open>RalphStateDO\<close>\<close>

subsection \<open>Data\<close>

text \<open>The fields of \<^verbatim>\<open>Task\<close> that the store reads.\<close>

record Task =
  t_id :: string
  t_title :: string
  t_description :: string
  t_branch :: string

text \<open>
  \<^verbatim>\<open>PRDEntry\<close> and \<^verbatim>\<open>PRD\<close>. The counters \<open>attempts\<close> and \<open>version\<close> are
  JavaScript numbers that start at 0 and 1 and only ever grow by \<^verbatim>\<open>++\<close>; they are
  natural numbers here (exact below \<open>2^53\<close>).
\<close>

record PRDEntry =
  description :: string
  branchName :: string
  passes :: bool
  prUrl :: "string option"
  attempts :: nat
  lastAttemptAt :: "string option"
  error :: "string option"

text \<open>
  \<^verbatim>\<open>tasks: Record<string, PRDEntry>\<close> is a plain object. It is kept as the list of
  its own properties in the order \<^verbatim>\<open>Object.entries\<close> enumerates them, because the
  dispatch loop depends on that order; only own properties are written to storage and
  read back. What the object inherits from \<^verbatim>\<open>Object.prototype\<close> is modelled apart
  (see \<open>realm\<close> below).
\<close>

record PRD =
  projectName :: string
  tasks :: "(string \<times> PRDEntry) list"
  version :: nat
  updatedAt :: string

record ProgressEntry =
  p_timestamp :: string
  p_taskId :: string
  p_description :: string
  p_learnings :: "string list"
  p_filesChanged :: "string list"

record Env =
  VIBE_PROJECT_NAME :: string
  GITHUB_REPO_OWNER :: string
  GITHUB_REPO_NAME :: string
  EXECUTION_SERVER_URL :: string
  EXECUTION_SERVER_TOKEN :: string

text \<open>The two keys of \<^verbatim>\<open>state.storage\<close>; \<open>None\<close> is a key never written.\<close>

record Storage =
  st_prd :: "PRD option"
  st_progress :: "string option"

text \<open>
  What a handler does to the outside, in program order: writes to storage, arming the
  alarm, the HTTP request to the execution server (URL, Authorization header, body), and
  property writes that land on the object inherited under a name instead of on a ledger
  entry.
\<close>

datatype effect =
    StoragePutPrd PRD
  | StoragePutProgress string
  | SetAlarm int
  | FetchExecute string string ExecutionRequest
  | WriteInherited string

text \<open>
  The responses of the routes. \<open>InternalError500\<close> is the answer of the \<^verbatim>\<open>catch\<close> in
  \<^verbatim>\<open>fetch\<close> when a handler throws.
\<close>

datatype Response =
    OkTaskId string
  | OkPlain
  | TaskNotFound
  | InternalError500
  | NextTask "(string \<times> PRDEntry) option"

text \<open>
  Each \<^verbatim>\<open>new Date().toISOString()\<close> in the source is one reading of the clock; a
  handler runs every such call site at most once, so the clock of one invocation is a
  function from call sites to readings.
\<close>

datatype clock_site =
    At_getPRD_init
  | At_enqueue_updatedAt
  | At_complete_lastAttemptAt
  | At_complete_updatedAt
  | At_complete_timestamp
  | At_fail_lastAttemptAt
  | At_fail_updatedAt

type_synonym clock = "clock_site \<Rightarrow> string"

subsection \<open>Properties of a plain object\<close>

text \<open>
  \<^verbatim>\<open>Object.entries\<close> lists array-index keys (canonical decimal strings below
  \<open>2^32 - 1\<close>) first, in ascending numeric order, then every other string key in
  insertion order. Assigning to an existing key keeps its position.
\<close>

definition is_digit :: "char \<Rightarrow> bool" where
  "is_digit c = (c \<in> set ''0123456789'')"

definition digits_val :: "string \<Rightarrow> nat" where
  "digits_val k = foldl (\<lambda>n c. 10 * n + (of_char c - 48)) 0 k"

definition is_array_index :: "string \<Rightarrow> bool" where
  "is_array_index k =
     (k \<noteq> [] \<and> list_all is_digit k \<and> (k = ''0'' \<or> hd k \<noteq> CHR ''0'')
      \<and> digits_val k < 2 ^ 32 - 1)"

fun insert_index :: "string \<Rightarrow> 'v \<Rightarrow> (string \<times> 'v) list \<Rightarrow> (string \<times> 'v) list" where
  "insert_index k v [] = [(k, v)]"
| "insert_index k v ((k', v') # xs) =
     (if is_array_index k' \<and> digits_val k' < digits_val k
      then (k', v') # insert_index k v xs
      else (k, v) # (k', v') # xs)"

definition obj_modify :: "(string \<times> 'v) list \<Rightarrow> string \<Rightarrow> ('v \<Rightarrow> 'v) \<Rightarrow> (string \<times> 'v) list" where
  "obj_modify obj k f = map (\<lambda>(k', v'). if k' = k then (k', f v') else (k', v')) obj"

text \<open>
  The assignment \<^verbatim>\<open>obj[k] = v\<close> of an object \<open>v\<close>. An own property is overwritten in
  place. Otherwise the name \<^verbatim>\<open>__proto__\<close> runs the setter of \<^verbatim>\<open>Object.prototype\<close>:
  the prototype of \<open>obj\<close> is replaced and no own property is created, so nothing of it
  reaches storage. Every other name gets a new own property.
\<close>

definition obj_set :: "(string \<times> 'v) list \<Rightarrow> string \<Rightarrow> 'v \<Rightarrow> (string \<times> 'v) list" where
  "obj_set obj k v =
     (if map_of obj k \<noteq> None then obj_modify obj k (\<lambda>_. v)
      else if k = ''__proto__'' then obj
      else if is_array_index k then insert_index k v obj
      else obj @ [(k, v)])"

text \<open>
  The read \<^verbatim>\<open>obj[k]\<close>. An own property wins; a name that is not an own property is
  looked up on \<^verbatim>\<open>Object.prototype\<close>. What is found there is all the handlers can tell
  apart: a value the guard \<^verbatim>\<open>!obj[k]\<close> takes for absent (\<open>Falsy\<close>, which covers no such
  property); a truthy value that rejects property assignment with a \<^verbatim>\<open>TypeError\<close>, as
  the strict code of a class body makes a primitive do (\<open>TruthyUnwritable\<close>); or an
  object or function that accepts property writes, given with the text its
  \<^verbatim>\<open>description\<close> renders to in a template literal (\<open>TruthyObject\<close>). A \<open>realm\<close> is
  the content of \<^verbatim>\<open>Object.prototype\<close> during one invocation; \<open>fresh_realm\<close> is that of
  an isolate in which nothing was written to it.
\<close>

datatype proto_value = Falsy | TruthyUnwritable | TruthyObject string

type_synonym realm = "string \<Rightarrow> proto_value"

datatype 'v property = Own 'v | Inherited proto_value

definition obj_get :: "realm \<Rightarrow> (string \<times> 'v) list \<Rightarrow> string \<Rightarrow> 'v property" where
  "obj_get realm obj k =
     (case map_of obj k of Some v \<Rightarrow> Own v | None \<Rightarrow> Inherited (realm k))"

definition object_prototype_names :: "string list" where
  "object_prototype_names =
     [''constructor'', ''__defineGetter__'', ''__defineSetter__'', ''hasOwnProperty'',
      ''__lookupGetter__'', ''__lookupSetter__'', ''isPrototypeOf'',
      ''propertyIsEnumerable'', ''toString'', ''valueOf'', ''__proto__'',
      ''toLocaleString'']"

definition fresh_realm :: realm where
  "fresh_realm k =
     (if k \<in> set object_prototype_names then TruthyObject ''undefined'' else Falsy)"

subsection \<open>Storage helpers\<close>

definition getPRD :: "Env \<Rightarrow> clock \<Rightarrow> Storage \<Rightarrow> PRD \<times> Storage \<times> effect list" where
  "getPRD env clk s =
     (case st_prd s of
        Some prd \<Rightarrow> (prd, s, [])
      | None \<Rightarrow>
          (let prd = \<lparr> projectName =
                        (if VIBE_PROJECT_NAME env = [] then ''rocket''
                         else VIBE_PROJECT_NAME env),
                      tasks = [], version = 1, updatedAt = clk At_getPRD_init \<rparr>
           in (prd, s\<lparr>st_prd := Some prd\<rparr>, [StoragePutPrd prd])))"

definition getProgress :: "Storage \<Rightarrow> string" where
  "getProgress s = (case st_progress s of None \<Rightarrow> [] | Some p \<Rightarrow> p)"

definition renderProgress :: "ProgressEntry \<Rightarrow> string" where
  "renderProgress entry =
     join nl
       ([nl @ ''## '' @ p_timestamp entry @ '' - '' @ p_taskId entry,
         p_description entry,
         [],
         ''### Learnings'']
        @ map (\<lambda>l. ''- '' @ l) (p_learnings entry)
        @ [[]]
        @ (if p_filesChanged entry \<noteq> []
           then [''### Files Changed''] @ map (\<lambda>f. ''- '' @ f) (p_filesChanged entry) @ [[]]
           else []))"

definition appendProgress :: "ProgressEntry \<Rightarrow> Storage \<Rightarrow> Storage \<times> effect list" where
  "appendProgress entry s =
     (let progress = getProgress s;
          newEntry = renderProgress entry
      in (s\<lparr>st_progress := Some (progress @ newEntry)\<rparr>,
          [StoragePutProgress (progress @ newEntry)]))"

subsection \<open>Request handlers\<close>

definition handleEnqueue ::
  "Env \<Rightarrow> clock \<Rightarrow> int \<Rightarrow> Task \<Rightarrow> Storage \<Rightarrow> Response \<times> Storage \<times> effect list" where
  "handleEnqueue env clk now_ms task s =
     (case getPRD env clk s of (prd, s1, es) \<Rightarrow>
        (let prd' = prd\<lparr> tasks := obj_set (tasks prd) (t_id task)
                                     \<lparr> description = t_description task,
                                       branchName = t_branch task,
                                       passes = False,
                                       prUrl = None,
                                       attempts = 0,
                                       lastAttemptAt = None,
                                       error = None \<rparr>,
                         version := version prd + 1,
                         updatedAt := clk At_enqueue_updatedAt \<rparr>
         in (OkTaskId (t_id task),
             s1\<lparr>st_prd := Some prd'\<rparr>,
             es @ [StoragePutPrd prd', SetAlarm (now_ms + 1000)])))"

text \<open>
  \<^verbatim>\<open>handleComplete\<close> and \<^verbatim>\<open>handleFail\<close> guard with \<^verbatim>\<open>!prd.tasks[data.taskId]\<close>
  and then assign through \<^verbatim>\<open>prd.tasks[data.taskId]\<close>. For an own entry the
  assignments change the entry. For a name found only on \<^verbatim>\<open>Object.prototype\<close> the
  guard lets a truthy value through: the assignments then land on the inherited object
  (or throw, which \<^verbatim>\<open>fetch\<close> turns into a 500), the ledger's own entries stay as they
  were, and the handler goes on to bump the version and write the ledger. The progress
  entry takes its description from \<^verbatim>\<open>prd.tasks[data.taskId].description\<close> after the
  assignments, none of which touches a description.
\<close>

definition handleComplete ::
  "realm \<Rightarrow> Env \<Rightarrow> clock \<Rightarrow> string \<Rightarrow> ExecutionResult \<Rightarrow> Storage
   \<Rightarrow> Response \<times> Storage \<times> effect list" where
  "handleComplete realm env clk taskId result s =
     (case getPRD env clk s of (prd, s1, es) \<Rightarrow>
        (case obj_get realm (tasks prd) taskId of
           Inherited Falsy \<Rightarrow> (TaskNotFound, s1, es)
         | Inherited TruthyUnwritable \<Rightarrow> (InternalError500, s1, es)
         | Inherited (TruthyObject inherited_description) \<Rightarrow>
             (let prd' = prd\<lparr> version := version prd + 1,
                              updatedAt := clk At_complete_updatedAt \<rparr>;
                  s2 = s1\<lparr>st_prd := Some prd'\<rparr>;
                  es2 = es @ [WriteInherited taskId, StoragePutPrd prd']
              in if r_learnings result \<noteq> []
                 then (case appendProgress
                              \<lparr> p_timestamp = clk At_complete_timestamp,
                                p_taskId = taskId,
                                p_description = inherited_description,
                                p_learnings = r_learnings result,
                                p_filesChanged = [] \<rparr> s2 of
                         (s3, es') \<Rightarrow> (OkPlain, s3, es2 @ es'))
                 else (OkPlain, s2, es2))
         | Own entry \<Rightarrow>
             (let prd' = prd\<lparr> tasks := obj_modify (tasks prd) taskId
                                          (\<lambda>e. e\<lparr> passes := r_success result,
                                                  prUrl := r_prUrl result,
                                                  lastAttemptAt :=
                                                    Some (clk At_complete_lastAttemptAt) \<rparr>),
                              version := version prd + 1,
                              updatedAt := clk At_complete_updatedAt \<rparr>;
                  s2 = s1\<lparr>st_prd := Some prd'\<rparr>
              in if r_learnings result \<noteq> []
                 then (case appendProgress
                              \<lparr> p_timestamp = clk At_complete_timestamp,
                                p_taskId = taskId,
                                p_description = description entry,
                                p_learnings = r_learnings result,
                                p_filesChanged = [] \<rparr> s2 of
                         (s3, es') \<Rightarrow> (OkPlain, s3, es @ [StoragePutPrd prd'] @ es'))
                 else (OkPlain, s2, es @ [StoragePutPrd prd']))))"

definition handleFail ::
  "realm \<Rightarrow> Env \<Rightarrow> clock \<Rightarrow> string \<Rightarrow> string \<Rightarrow> Storage
   \<Rightarrow> Response \<times> Storage \<times> effect list" where
  "handleFail realm env clk taskId err s =
     (case getPRD env clk s of (prd, s1, es) \<Rightarrow>
        (case obj_get realm (tasks prd) taskId of
           Inherited Falsy \<Rightarrow> (TaskNotFound, s1, es)
         | Inherited TruthyUnwritable \<Rightarrow> (InternalError500, s1, es)
         | Inherited (TruthyObject inherited_description) \<Rightarrow>
             (let prd' = prd\<lparr> version := version prd + 1,
                              updatedAt := clk At_fail_updatedAt \<rparr>
              in (OkPlain, s1\<lparr>st_prd := Some prd'\<rparr>,
                  es @ [WriteInherited taskId, StoragePutPrd prd']))
         | Own entry \<Rightarrow>
             (let prd' = prd\<lparr> tasks := obj_modify (tasks prd) taskId
                                          (\<lambda>e. e\<lparr> passes := False,
                                                  error := Some err,
                                                  lastAttemptAt :=
                                                    Some (clk At_fail_lastAttemptAt),
                                                  attempts := attempts e + 1 \<rparr>),
                              version := version prd + 1,
                              updatedAt := clk At_fail_updatedAt \<rparr>
              in (OkPlain, s1\<lparr>st_prd := Some prd'\<rparr>, es @ [StoragePutPrd prd']))))"

text \<open>The test both loops apply to an entry: \<^verbatim>\<open>!task.passes && task.attempts < 3\<close>.\<close>

definition eligible :: "PRDEntry \<Rightarrow> bool" where
  "eligible task = (\<not> passes task \<and> attempts task < 3)"

fun nextTask :: "(string \<times> PRDEntry) list \<Rightarrow> (string \<times> PRDEntry) option" where
  "nextTask [] = None"
| "nextTask ((taskId, task) # rest) =
     (if eligible task then Some (taskId, task) else nextTask rest)"

definition handleGetNextTask ::
  "Env \<Rightarrow> clock \<Rightarrow> Storage \<Rightarrow> Response \<times> Storage \<times> effect list" where
  "handleGetNextTask env clk s =
     (case getPRD env clk s of (prd, s1, es) \<Rightarrow> (NextTask (nextTask (tasks prd)), s1, es))"

subsection \<open>The alarm handler\<close>

text \<open>
  The loop of \<^verbatim>\<open>alarm()\<close> over \<^verbatim>\<open>Object.entries(prd.tasks)\<close>. \<open>seen\<close> holds the
  entries already passed over. At the first eligible entry the loop increments
  \<open>attempts\<close> on that entry object in place and breaks; the result is the new
  property list with the id and the (mutated) entry, or \<open>None\<close> when the loop runs out.
\<close>

fun alarm_loop ::
  "(string \<times> PRDEntry) list \<Rightarrow> (string \<times> PRDEntry) list
   \<Rightarrow> ((string \<times> PRDEntry) list \<times> string \<times> PRDEntry) option" where
  "alarm_loop seen [] = None"
| "alarm_loop seen ((taskId, task) # rest) =
     (if eligible task
      then (let task' = task\<lparr>attempts := attempts task + 1\<rparr>
            in Some (seen @ (taskId, task') # rest, taskId, task'))
      else alarm_loop (seen @ [(taskId, task)]) rest)"

definition executeRequest :: "Env \<Rightarrow> string \<Rightarrow> PRDEntry \<Rightarrow> effect" where
  "executeRequest env taskId task =
     FetchExecute
       (EXECUTION_SERVER_URL env @ ''/execute'')
       (''Bearer '' @ EXECUTION_SERVER_TOKEN env)
       \<lparr> q_taskId = taskId,
         q_repoUrl = ''https://github.com/'' @ GITHUB_REPO_OWNER env @ ''/''
                      @ GITHUB_REPO_NAME env @ ''.git'',
         q_baseBranch = ''main'',
         q_branchName = branchName task,
         q_prompt = description task,
         q_maxIterations = 10,
         q_callbackUrl = ''https://ralph-coordinator.'' @ EXECUTION_SERVER_URL env
                         @ ''/callbacks/execution'' \<rparr>"

text \<open>
  \<open>fetch_outcome\<close> is what the \<^verbatim>\<open>fetch\<close> to the execution server does; a rejection is
  caught and logged, so both outcomes leave the handler in the same way.
\<close>

definition alarm ::
  "Env \<Rightarrow> clock \<Rightarrow> unit attempt \<Rightarrow> Storage \<Rightarrow> Storage \<times> effect list" where
  "alarm env clk fetch_outcome s =
     (case getPRD env clk s of (prd, s1, es) \<Rightarrow>
        (case alarm_loop [] (tasks prd) of
           None \<Rightarrow> (s1, es)
         | Some (tasks', taskId, task) \<Rightarrow>
             (let prd' = prd\<lparr>tasks := tasks'\<rparr>;
                  s2 = s1\<lparr>st_prd := Some prd'\<rparr>;
                  es' = es @ [StoragePutPrd prd', executeRequest env taskId task]
              in (case fetch_outcome of
                    Returns _ \<Rightarrow> (s2, es')
                  | Throws _ \<Rightarrow> (s2, es')))))"

subsection \<open>Observations on a handler's effects\<close>

definition ledger_entry :: "Storage \<Rightarrow> string \<Rightarrow> PRDEntry option" where
  "ledger_entry s k = (case st_prd s of None \<Rightarrow> None | Some prd \<Rightarrow> map_of (tasks prd) k)"

fun alarms_set :: "effect list \<Rightarrow> int list" where
  "alarms_set [] = []"
| "alarms_set (SetAlarm t # es) = t # alarms_set es"
| "alarms_set (e # es) = alarms_set es"

fun progress_writes :: "effect list \<Rightarrow> string list" where
  "progress_writes [] = []"
| "progress_writes (StoragePutProgress p # es) = p # progress_writes es"
| "progress_writes (e # es) = progress_writes es"

fun requests_sent :: "effect list \<Rightarrow> ExecutionRequest list" where
  "requests_sent [] = []"
| "requests_sent (FetchExecute url auth req # es) = req # requests_sent es"
| "requests_sent (e # es) = requests_sent es"

section \<open>Quality Gate: \<^verbatim>\<open>QualityChecker\<close>\<close>

text \<open>
  \<^verbatim>\<open>execAsync\<close> either resolves with the command's standard output or rejects with an
  error whose \<^verbatim>\<open>message\<close> is kept (non-zero exit, signal or timeout).
\<close>

datatype cmd_outcome = Exited0 string | CmdFailed string

text \<open>
  What the checker finds in the worktree. Every field is read by one call only, so it
  stands for the outcome at the moment of that call.
\<close>

record Project =
  has_package_json :: bool
  has_node_modules :: bool
  npm_install :: cmd_outcome
  npm_run_typecheck :: cmd_outcome
  npx_tsc :: cmd_outcome
  npm_test :: cmd_outcome
  npm_run_lint :: cmd_outcome

record QualityCheckResult =
  typecheck :: bool
  tests :: bool
  lint :: bool
  errors :: "string list"

definition runTypecheck :: "Project \<Rightarrow> bool attempt" where
  "runTypecheck p =
     (case npm_run_typecheck p of
        Exited0 out \<Rightarrow> Returns True
      | CmdFailed m \<Rightarrow>
          if str_includes m ''Missing script''
          then (case npx_tsc p of
                  Exited0 out \<Rightarrow> Returns True
                | CmdFailed m' \<Rightarrow> Throws m')
          else Throws m)"

definition runTests :: "Project \<Rightarrow> bool attempt" where
  "runTests p =
     (case npm_test p of
        Exited0 out \<Rightarrow> Returns True
      | CmdFailed m \<Rightarrow>
          if str_includes m ''Missing script'' then Returns True else Throws m)"

definition runLint :: "Project \<Rightarrow> bool attempt" where
  "runLint p =
     (case npm_run_lint p of
        Exited0 out \<Rightarrow> Returns True
      | CmdFailed m \<Rightarrow>
          if str_includes m ''Missing script'' then Returns True else Returns True)"

definition runAll :: "Project \<Rightarrow> QualityCheckResult" where
  "runAll p =
     (let results = \<lparr> typecheck = False, tests = False, lint = False, errors = [] \<rparr>
      in if \<not> has_package_json p
         then results\<lparr>errors := errors results @ [''No package.json found'']\<rparr>
         else
           (let results1 =
                  (case runTypecheck p of
                     Returns b \<Rightarrow> results\<lparr>typecheck := b\<rparr>
                   | Throws m \<Rightarrow>
                       results\<lparr>errors := errors results @ [''Typecheck failed: '' @ m]\<rparr>);
                results2 =
                  (case runTests p of
                     Returns b \<Rightarrow> results1\<lparr>tests := b\<rparr>
                   | Throws m \<Rightarrow>
                       results1\<lparr>errors := errors results1 @ [''Tests failed: '' @ m]\<rparr>);
                results3 =
                  (case runLint p of
                     Returns b \<Rightarrow> results2\<lparr>lint := b\<rparr>
                   | Throws m \<Rightarrow> results2\<lparr>lint := True\<rparr>)
            in results3))"

definition installDependencies :: "Project \<Rightarrow> unit attempt" where
  "installDependencies p =
     (if has_node_modules p then Returns ()
      else (case npm_install p of
              Exited0 out \<Rightarrow> Returns ()
            | CmdFailed m \<Rightarrow> Throws m))"

section \<open>Execution Agent: \<^verbatim>\<open>ExecutionAgent\<close>\<close>

subsection \<open>Data\<close>

datatype exec_status = Pending | Running | Completed | Failed | Cancelled

record ExecutionState =
  x_id :: string
  x_taskId :: string
  x_status :: exec_status
  x_startedAt :: string
  x_completedAt :: "string option"
  x_worktreePath :: "string option"
  x_logs :: "string list"
  x_learnings :: "string list"

record ClaudeRunResult =
  c_success :: bool
  c_output :: string
  c_completed :: bool
  c_iterationsUsed :: nat

text \<open>The call sites of \<^verbatim>\<open>Date.now()\<close> and \<^verbatim>\<open>new Date().toISOString()\<close> in \<^verbatim>\<open>execute\<close>.\<close>

datatype now_site =
    Now_start
  | Now_gate_return
  | Now_success_callback
  | Now_success_return
  | Now_catch_callback
  | Now_catch_return

datatype iso_site = Iso_startedAt | Iso_completedAt_success | Iso_completedAt_catch

text \<open>
  Everything outside the agent that one run of \<^verbatim>\<open>execute\<close> meets: the clock and the
  random generator behind \<^verbatim>\<open>generateExecutionId\<close>, and the outcome of each git,
  file-system, subprocess and network call. \<open>w_claude\<close> covers constructing the runner and
  \<^verbatim>\<open>run\<close>; \<open>w_extractLearnings\<close> is the regular-expression scan of
  \<^verbatim>\<open>extractLearnings\<close>, which cannot throw; \<open>w_callbackFetch\<close> is the \<^verbatim>\<open>fetch\<close> to
  the callback URL (resolving with \<^verbatim>\<open>response.ok\<close>, or rejecting); \<open>w_worktreeRemove\<close>
  is \<^verbatim>\<open>git worktree remove --force\<close>.
\<close>

record World =
  w_id_now :: nat
  w_id_random :: string
  w_now :: "now_site \<Rightarrow> int"
  w_iso :: "iso_site \<Rightarrow> string"
  w_cloneIfNeeded :: "unit attempt"
  w_createWorktree :: "string attempt"
  w_project :: Project
  w_progressFile :: "string attempt"
  w_generatePromptFile :: "string attempt"
  w_claude :: "ClaudeRunResult attempt"
  w_extractLearnings :: "string \<Rightarrow> string list"
  w_getChangedFiles :: "string list attempt"
  w_commit :: "unit attempt"
  w_push :: "unit attempt"
  w_callbackFetch :: "bool attempt"
  w_worktreeRemove :: "unit attempt"

text \<open>The calls the agent makes to its collaborators, in program order.\<close>

datatype event =
    CloneIfNeeded string string
  | CreateWorktree string string
  | InstallDependencies string
  | GeneratePromptFile string string string
  | RunClaude string nat
  | RunQualityChecks string
  | GetChangedFiles string
  | Commit string
  | Push string string
  | Callback string ExecutionResult
  | DeleteWorktree string

subsection \<open>Execution ids\<close>

text \<open>
  \<^verbatim>\<open>`exec-${Date.now()}-${Math.random().toString(36).substring(7)}`\<close>: the clock reading
  in decimal, and the base-36 rendering of the random number from its eighth character on.
\<close>

definition digit_char :: "nat \<Rightarrow> char" where
  "digit_char d =
     (if d = 0 then CHR ''0'' else if d = 1 then CHR ''1'' else if d = 2 then CHR ''2''
      else if d = 3 then CHR ''3'' else if d = 4 then CHR ''4'' else if d = 5 then CHR ''5''
      else if d = 6 then CHR ''6'' else if d = 7 then CHR ''7'' else if d = 8 then CHR ''8''
      else CHR ''9'')"

function dec :: "nat \<Rightarrow> string" where
  "dec n = (if n < 10 then [digit_char n] else dec (n div 10) @ [digit_char (n mod 10)])"
  by pat_completeness auto
termination
  by (relation "measure (\<lambda>n. n)") auto

declare dec.simps [simp del]

definition mk_executionId :: "nat \<Rightarrow> string \<Rightarrow> string" where
  "mk_executionId now random36 = ''exec-'' @ dec now @ ''-'' @ drop 7 random36"

definition generateExecutionId :: "World \<Rightarrow> string" where
  "generateExecutionId w = mk_executionId (w_id_now w) (w_id_random w)"

subsection \<open>Helpers of the pipeline\<close>

definition getProgressContext :: "World \<Rightarrow> string" where
  "getProgressContext w =
     (case w_progressFile w of
        Returns content \<Rightarrow>
          if length content > 2000 then drop (length content - 2000) content else content
      | Throws m \<Rightarrow> [])"

definition notifyCallback :: "World \<Rightarrow> string \<Rightarrow> ExecutionResult \<Rightarrow> unit attempt \<times> event list" where
  "notifyCallback w callbackUrl result =
     (case w_callbackFetch w of
        Returns ok \<Rightarrow> (Returns (), [Callback callbackUrl result])
      | Throws m \<Rightarrow> (Returns (), [Callback callbackUrl result]))"

definition deleteWorktree :: "World \<Rightarrow> string \<Rightarrow> unit attempt \<times> event list" where
  "deleteWorktree w worktreePath =
     (case w_worktreeRemove w of
        Returns u \<Rightarrow> (Returns (), [DeleteWorktree worktreePath])
      | Throws m \<Rightarrow> (Returns (), [DeleteWorktree worktreePath]))"

subsection \<open>The pipeline\<close>

text \<open>
  The body of the \<^verbatim>\<open>try\<close> in \<^verbatim>\<open>execute\<close>. It ends by returning a result or by
  throwing; either way it hands back the execution state as mutated so far and the calls
  made so far. \<^verbatim>\<open>path.join(workspaceRoot, 'rocket')\<close> is written for a root that is
  already normalised and has no trailing slash.
\<close>

definition try_block ::
  "string \<Rightarrow> World \<Rightarrow> ExecutionRequest \<Rightarrow> ExecutionState
   \<Rightarrow> ExecutionResult attempt \<times> ExecutionState \<times> event list" where
  "try_block workspaceRoot w request state =
    (let repoPath = workspaceRoot @ ''/rocket'';
         ev1 = [CloneIfNeeded (q_repoUrl request) repoPath]
     in case w_cloneIfNeeded w of
          Throws m \<Rightarrow> (Throws m, state, ev1)
        | Returns u1 \<Rightarrow>
    (let ev2 = ev1 @ [CreateWorktree (q_branchName request) (q_baseBranch request)]
     in case w_createWorktree w of
          Throws m \<Rightarrow> (Throws m, state, ev2)
        | Returns worktreePath \<Rightarrow>
    (let state1 = state\<lparr>x_worktreePath := Some worktreePath\<rparr>;
         ev3 = ev2 @ [InstallDependencies worktreePath]
     in case installDependencies (w_project w) of
          Throws m \<Rightarrow> (Throws m, state1, ev3)
        | Returns u2 \<Rightarrow>
    (let progressContext = getProgressContext w;
         ev4 = ev3 @ [GeneratePromptFile worktreePath (q_prompt request) progressContext]
     in case w_generatePromptFile w of
          Throws m \<Rightarrow> (Throws m, state1, ev4)
        | Returns promptFile \<Rightarrow>
    (let ev5 = ev4 @ [RunClaude promptFile (q_maxIterations request)]
     in case w_claude w of
          Throws m \<Rightarrow> (Throws m, state1, ev5)
        | Returns claudeResult \<Rightarrow>
    (let state2 = state1\<lparr>x_logs := x_logs state1 @ [c_output claudeResult]\<rparr>
     in if \<not> c_success claudeResult
        then (Throws ''Claude execution failed'', state2, ev5)
        else
    (let state3 = state2\<lparr>x_learnings := w_extractLearnings w (c_output claudeResult)\<rparr>;
         ev6 = ev5 @ [RunQualityChecks worktreePath];
         qualityResult = runAll (w_project w)
     in if \<not> typecheck qualityResult \<or> \<not> tests qualityResult
        then (Returns \<lparr> r_taskId = q_taskId request,
                        r_success = False,
                        r_prUrl = None,
                        r_error = Some (''Quality checks failed: ''
                                        @ join '', '' (errors qualityResult)),
                        r_logs = join nl (x_logs state3),
                        r_learnings = x_learnings state3,
                        r_testsPass = tests qualityResult,
                        r_typecheckPass = typecheck qualityResult,
                        r_duration = w_now w Now_gate_return - w_now w Now_start \<rparr>,
              state3\<lparr>x_status := Failed\<rparr>, ev6)
        else
    (let ev7 = ev6 @ [GetChangedFiles worktreePath]
     in case w_getChangedFiles w of
          Throws m \<Rightarrow> (Throws m, state3, ev7)
        | Returns changedFiles \<Rightarrow>
          if changedFiles = []
          then (Throws ''No changes were made'', state3, ev7)
          else
    (let ev8 = ev7 @ [Commit worktreePath]
     in case w_commit w of
          Throws m \<Rightarrow> (Throws m, state3, ev8)
        | Returns u3 \<Rightarrow>
    (let ev9 = ev8 @ [Push worktreePath (q_branchName request)]
     in case w_push w of
          Throws m \<Rightarrow> (Throws m, state3, ev9)
        | Returns u4 \<Rightarrow>
    (case (if q_callbackUrl request \<noteq> []
           then notifyCallback w (q_callbackUrl request)
                  \<lparr> r_taskId = q_taskId request,
                    r_success = True,
                    r_prUrl = None,
                    r_error = None,
                    r_logs = join nl (x_logs state3),
                    r_learnings = x_learnings state3,
                    r_testsPass = True,
                    r_typecheckPass = True,
                    r_duration = w_now w Now_success_callback - w_now w Now_start \<rparr>
           else (Returns (), [])) of
       (Throws m, evc) \<Rightarrow> (Throws m, state3, ev9 @ evc)
     | (Returns u5, evc) \<Rightarrow>
    (case deleteWorktree w worktreePath of
       (Throws m, evd) \<Rightarrow> (Throws m, state3, ev9 @ evc @ evd)
     | (Returns u6, evd) \<Rightarrow>
         (Returns \<lparr> r_taskId = q_taskId request,
                    r_success = True,
                    r_prUrl = None,
                    r_error = None,
                    r_logs = join nl (x_logs state3),
                    r_learnings = x_learnings state3,
                    r_testsPass = True,
                    r_typecheckPass = True,
                    r_duration = w_now w Now_success_return - w_now w Now_start \<rparr>,
          state3\<lparr> x_status := Completed,
                  x_completedAt := Some (w_iso w Iso_completedAt_success) \<rparr>,
          ev9 @ evc @ evd)))))))))))))"

text \<open>
  \<^verbatim>\<open>execute\<close>: registers the state under a fresh id, runs the \<^verbatim>\<open>try\<close> body, and in
  the \<^verbatim>\<open>catch\<close> builds the failure result. The state object in the map is the one the
  pipeline mutates, so the map ends with the final state under the same id. An exception
  leaving \<^verbatim>\<open>execute\<close> would be \<open>Throws\<close> in the first component.
\<close>

definition initial_state :: "World \<Rightarrow> ExecutionRequest \<Rightarrow> ExecutionState" where
  "initial_state w request =
     \<lparr> x_id = generateExecutionId w,
       x_taskId = q_taskId request,
       x_status = Running,
       x_startedAt = w_iso w Iso_startedAt,
       x_completedAt = None,
       x_worktreePath = None,
       x_logs = [],
       x_learnings = [] \<rparr>"

definition execute ::
  "string \<Rightarrow> World \<Rightarrow> ExecutionRequest \<Rightarrow> (string \<rightharpoonup> ExecutionState)
   \<Rightarrow> ExecutionResult attempt \<times> (string \<rightharpoonup> ExecutionState) \<times> event list" where
  "execute workspaceRoot w request executions =
     (let executionId = generateExecutionId w;
          state = initial_state w request
      in case try_block workspaceRoot w request state of
           (Returns result, state', evs) \<Rightarrow>
             (Returns result, executions(executionId \<mapsto> state'), evs)
         | (Throws message, state', evs) \<Rightarrow>
             (let state'' = state'\<lparr> x_status := Failed,
                                    x_completedAt := Some (w_iso w Iso_completedAt_catch) \<rparr>
              in case (if q_callbackUrl request \<noteq> []
                       then notifyCallback w (q_callbackUrl request)
                              \<lparr> r_taskId = q_taskId request,
                                r_success = False,
                                r_prUrl = None,
                                r_error = Some message,
                                r_logs = join nl (x_logs state''),
                                r_learnings = x_learnings state'',
                                r_testsPass = False,
                                r_typecheckPass = False,
                                r_duration = w_now w Now_catch_callback - w_now w Now_start \<rparr>
                       else (Returns (), [])) of
                   (Throws m, evc) \<Rightarrow>
                     (Throws m, executions(executionId \<mapsto> state''), evs @ evc)
                 | (Returns u, evc) \<Rightarrow>
                     (Returns \<lparr> r_taskId = q_taskId request,
                                r_success = False,
                                r_prUrl = None,
                                r_error = Some message,
                                r_logs = join nl (x_logs state''),
                                r_learnings = x_learnings state'',
                                r_testsPass = False,
                                r_typecheckPass = False,
                                r_duration = w_now w Now_catch_return - w_now w Now_start \<rparr>,
                      executions(executionId \<mapsto> state''), evs @ evc)))"

definition getStatus :: "(string \<rightharpoonup> ExecutionState) \<Rightarrow> string \<Rightarrow> ExecutionState option" where
  "getStatus executions executionId = executions executionId"

subsection \<open>Observations on a run\<close>

fun callbacks :: "event list \<Rightarrow> (string \<times> ExecutionResult) list" where
  "callbacks [] = []"
| "callbacks (Callback url result # es) = (url, result) # callbacks es"
| "callbacks (e # es) = callbacks es"

fun commits :: "event list \<Rightarrow> string list" where
  "commits [] = []"
| "commits (Commit path # es) = path # commits es"
| "commits (e # es) = commits es"

fun pushes :: "event list \<Rightarrow> (string \<times> string) list" where
  "pushes [] = []"
| "pushes (Push path branch # es) = (path, branch) # pushes es"
| "pushes (e # es) = pushes es"

fun deletions :: "event list \<Rightarrow> string list" where
  "deletions [] = []"
| "deletions (DeleteWorktree path # es) = path # deletions es"
| "deletions (e # es) = deletions es"

text \<open>
  The steps that reach beyond the worktree (commit, push, callback, worktree deletion),
  in the order the run made them.
\<close>

fun publishing_steps :: "event list \<Rightarrow> event list" where
  "publishing_steps [] = []"
| "publishing_steps (Commit path # es) = Commit path # publishing_steps es"
| "publishing_steps (Push path branch # es) = Push path branch # publishing_steps es"
| "publishing_steps (Callback url result # es) = Callback url result # publishing_steps es"
| "publishing_steps (DeleteWorktree path # es) = DeleteWorktree path # publishing_steps es"
| "publishing_steps (e # es) = publishing_steps es"

fun gate_runs :: "event list \<Rightarrow> string list" where
  "gate_runs [] = []"
| "gate_runs (RunQualityChecks path # es) = path # gate_runs es"
| "gate_runs (e # es) = gate_runs es"

section \<open>Execution Server: the HTTP routes\<close>

text \<open>The clock and random generator as read by the \<^verbatim>\<open>/execute\<close> route itself.\<close>

record ServerWorld =
  s_now :: nat
  s_random :: string

datatype http_response =
    BadRequest400
  | ExecutionStarted string string
  | NotFound404
  | StatusOk ExecutionState

text \<open>
  \<^verbatim>\<open>POST /execute\<close> after authentication. \<^verbatim>\<open>agent.execute(request)\<close> is not awaited:
  it has run up to its first \<^verbatim>\<open>await\<close>, so the state is registered, when the response
  is sent; \<open>post_execute_settled\<close> is the agent's map once that background run has ended.
\<close>

definition post_execute ::
  "ServerWorld \<Rightarrow> World \<Rightarrow> ExecutionRequest \<Rightarrow> (string \<rightharpoonup> ExecutionState)
   \<Rightarrow> http_response \<times> (string \<rightharpoonup> ExecutionState)" where
  "post_execute sw w request executions =
     (if q_taskId request = [] \<or> q_repoUrl request = [] \<or> q_branchName request = []
         \<or> q_prompt request = []
      then (BadRequest400, executions)
      else (let executionId = mk_executionId (s_now sw) (s_random sw)
            in (ExecutionStarted executionId (q_taskId request),
                executions(generateExecutionId w \<mapsto> initial_state w request))))"

definition post_execute_settled ::
  "string \<Rightarrow> ServerWorld \<Rightarrow> World \<Rightarrow> ExecutionRequest \<Rightarrow> (string \<rightharpoonup> ExecutionState)
   \<Rightarrow> (string \<rightharpoonup> ExecutionState)" where
  "post_execute_settled workspaceRoot sw w request executions =
     (if q_taskId request = [] \<or> q_repoUrl request = [] \<or> q_branchName request = []
         \<or> q_prompt request = []
      then executions
      else fst (snd (execute workspaceRoot w request executions)))"

definition get_status :: "(string \<rightharpoonup> ExecutionState) \<Rightarrow> string \<Rightarrow> http_response" where
  "get_status executions executionId =
     (case getStatus executions executionId of
        None \<Rightarrow> NotFound404
      | Some status \<Rightarrow> StatusOk status)"

section \<open>Example inputs\<close>

definition ex_env :: Env where
  "ex_env = \<lparr> VIBE_PROJECT_NAME = ''demo'', GITHUB_REPO_OWNER = ''acme'',
              GITHUB_REPO_NAME = ''app'', EXECUTION_SERVER_URL = ''exec.example'',
              EXECUTION_SERVER_TOKEN = ''secret'' \<rparr>"

definition ex_clock :: clock where
  "ex_clock = (\<lambda>site. ''2026-01-01T00:00:00.000Z'')"

definition ex_entry :: "bool \<Rightarrow> nat \<Rightarrow> PRDEntry" where
  "ex_entry p n = \<lparr> description = ''Add a health endpoint'', branchName = ''task/t1'',
                    passes = p, prUrl = None, attempts = n, lastAttemptAt = None,
                    error = None \<rparr>"

definition ex_prd :: "(string \<times> PRDEntry) list \<Rightarrow> PRD" where
  "ex_prd ts = \<lparr> projectName = ''demo'', tasks = ts, version = 2,
                 updatedAt = ''2025-12-31T00:00:00.000Z'' \<rparr>"

definition ex_storage :: "(string \<times> PRDEntry) list \<Rightarrow> Storage" where
  "ex_storage ts = \<lparr> st_prd = Some (ex_prd ts), st_progress = None \<rparr>"

definition ex_task :: Task where
  "ex_task = \<lparr> t_id = ''T1'', t_title = ''Health'', t_description = ''Add a health endpoint'',
               t_branch = ''task/t1'' \<rparr>"

definition ex_result :: "string list \<Rightarrow> ExecutionResult" where
  "ex_result ls = \<lparr> r_taskId = ''T1'', r_success = True, r_prUrl = None, r_error = None,
                    r_logs = [], r_learnings = ls, r_testsPass = True, r_typecheckPass = True,
                    r_duration = 5 \<rparr>"

definition ex_request :: ExecutionRequest where
  "ex_request = \<lparr> q_taskId = ''T1'', q_repoUrl = ''https://github.com/acme/app.git'',
                  q_baseBranch = ''main'', q_branchName = ''task/t1'',
                  q_prompt = ''Add a health endpoint'', q_maxIterations = 10,
                  q_callbackUrl = ''https://coordinator.example/callbacks/execution'' \<rparr>"

definition ex_project :: Project where
  "ex_project = \<lparr> has_package_json = True, has_node_modules = True,
                  npm_install = Exited0 [], npm_run_typecheck = Exited0 [],
                  npx_tsc = Exited0 [], npm_test = Exited0 [], npm_run_lint = Exited0 [] \<rparr>"

text \<open>A run in which every step succeeds and one file was changed.\<close>

definition ex_world :: World where
  "ex_world = \<lparr> w_id_now = 1700000000000, w_id_random = ''0.4fzyo82mvyr'',
                w_now = (\<lambda>site. 1700000000000),
                w_iso = (\<lambda>site. ''2023-11-14T22:13:20.000Z''),
                w_cloneIfNeeded = Returns (),
                w_createWorktree = Returns ''/workspace/rocket/.worktrees/task/t1'',
                w_project = ex_project,
                w_progressFile = Throws ''ENOENT'',
                w_generatePromptFile =
                  Returns ''/workspace/rocket/.worktrees/task/t1/.ralph/prompt.md'',
                w_claude = Returns \<lparr> c_success = True, c_output = ''done'',
                                      c_completed = True, c_iterationsUsed = 1 \<rparr>,
                w_extractLearnings = (\<lambda>out. []),
                w_getChangedFiles = Returns [''src/health.ts''],
                w_commit = Returns (),
                w_push = Returns (),
                w_callbackFetch = Returns True,
                w_worktreeRemove = Returns () \<rparr>"

text \<open>The same run, but \<^verbatim>\<open>npm test\<close> exits with a failing test.\<close>

definition ex_world_tests_fail :: World where
  "ex_world_tests_fail =
     ex_world\<lparr> w_project := ex_project\<lparr> npm_test := CmdFailed ''Command failed: npm test'' \<rparr> \<rparr>"

text \<open>The same run, but the agent left the worktree unchanged.\<close>

definition ex_world_no_diff :: World where
  "ex_world_no_diff = ex_world\<lparr> w_getChangedFiles := Returns [] \<rparr>"

text \<open>The same run, but the push is rejected.\<close>

definition ex_world_push_rejected :: World where
  "ex_world_push_rejected = ex_world\<lparr> w_push := Throws ''push rejected'' \<rparr>"

text \<open>
  A project whose \<^verbatim>\<open>test\<close> script exists and runs \<^verbatim>\<open>npm run unit\<close>, a script that
  does not: \<^verbatim>\<open>npm test\<close> exits non-zero and npm's complaint about \<^verbatim>\<open>unit\<close> is part
  of the error message.
\<close>

definition ex_project_nested_missing :: Project where
  "ex_project_nested_missing =
     ex_project\<lparr> npm_test :=
       CmdFailed ''Command failed: npm test npm error Missing script: unit'' \<rparr>"

text \<open>A task whose id is \<^verbatim>\<open>__proto__\<close>.\<close>

definition ex_task_proto :: Task where
  "ex_task_proto = ex_task\<lparr> t_id := ''__proto__'' \<rparr>"

text \<open>A storage no handler has written to yet, and one whose progress log has text.\<close>

definition ex_storage_unwritten :: Storage where
  "ex_storage_unwritten = \<lparr> st_prd = None, st_progress = None \<rparr>"

definition ex_storage_logged :: "(string \<times> PRDEntry) list \<Rightarrow> Storage" where
  "ex_storage_logged ts = \<lparr> st_prd = Some (ex_prd ts), st_progress = Some ''# Progress'' \<rparr>"

text \<open>
  Two draws that collide: the route reads the clock in the same millisecond as the agent,
  its random number is 0.5 (\<^verbatim>\<open>"0.i"\<close> in base 36) and the agent's is 0.25
  (\<^verbatim>\<open>"0.9"\<close>), both shorter than eight characters.
\<close>

definition ex_server_world :: ServerWorld where
  "ex_server_world = \<lparr> s_now = 1700000000000, s_random = ''0.i'' \<rparr>"

definition ex_world_quarter :: World where
  "ex_world_quarter = ex_world\<lparr> w_id_random := ''0.9'' \<rparr>"

section \<open>Facts about the Task State Store\<close>

subsection \<open>Objects and storage\<close>

lemma map_of_obj_modify:
  "map_of (obj_modify obj k f) k' = (if k' = k then map_option f (map_of obj k) else map_of obj k')"
  by (induction obj) (auto simp: obj_modify_def)

lemma map_of_insert_index:
  "map_of obj k = None \<Longrightarrow> map_of (insert_index k v obj) k' = (if k' = k then Some v else map_of obj k')"
  by (induction obj) (auto split: if_splits)

lemma map_of_append_new:
  "map_of obj k = None \<Longrightarrow> map_of (obj @ [(k, v)]) k' = (if k' = k then Some v else map_of obj k')"
  by (induction obj) (auto split: if_splits)

lemma map_of_obj_set:
  assumes "k \<noteq> ''__proto__'' \<or> map_of obj k \<noteq> None"
  shows "map_of (obj_set obj k v) k' = (if k' = k then Some v else map_of obj k')"
proof (cases "map_of obj k")
  case None
  with assms have "k \<noteq> ''__proto__''" by simp
  then show ?thesis
    by (simp add: obj_set_def None map_of_insert_index[OF None] map_of_append_new[OF None]
          del: map_of_append)
next
  case (Some a)
  then show ?thesis by (simp add: obj_set_def map_of_obj_modify)
qed

lemma obj_set_proto:
  "map_of obj ''__proto__'' = None \<Longrightarrow> obj_set obj ''__proto__'' v = obj"
  by (simp add: obj_set_def)

lemma obj_get_Own: "map_of obj k = Some v \<Longrightarrow> obj_get realm obj k = Own v"
  by (simp add: obj_get_def)

lemma obj_get_Inherited: "map_of obj k = None \<Longrightarrow> obj_get realm obj k = Inherited (realm k)"
  by (simp add: obj_get_def)

lemma fresh_realm_Falsy: "k \<notin> set object_prototype_names \<Longrightarrow> fresh_realm k = Falsy"
  by (simp add: fresh_realm_def)

lemma getPRD_stored: "st_prd s = Some prd \<Longrightarrow> getPRD env clk s = (prd, s, [])"
  by (simp add: getPRD_def)

lemma alarms_set_append: "alarms_set (xs @ ys) = alarms_set xs @ alarms_set ys"
  by (induction xs rule: alarms_set.induct) auto

lemma requests_sent_append: "requests_sent (xs @ ys) = requests_sent xs @ requests_sent ys"
  by (induction xs rule: requests_sent.induct) auto

lemma getPRD_effects:
  "getPRD env clk s = (prd, s1, es) \<Longrightarrow> alarms_set es = [] \<and> requests_sent es = []"
  by (auto simp: getPRD_def Let_def split: option.splits)

lemma getPRD_stored_iff:
  "getPRD env clk s = (prd, s1, es) \<Longrightarrow> st_prd s \<noteq> None \<Longrightarrow> s1 = s \<and> es = [] \<and> st_prd s = Some prd"
  by (auto simp: getPRD_def Let_def split: option.splits)

text \<open>
  Enqueue, the only handler that arms the alarm, writes the ledger first, and no handler
  ever removes it: whenever the alarm fires, a ledger is stored.
\<close>

lemma getPRD_stores: "getPRD env clk s = (prd, s1, es) \<Longrightarrow> st_prd s1 = Some prd"
  by (auto simp: getPRD_def Let_def split: option.splits)

lemma enqueue_stores_ledger:
  "st_prd (fst (snd (handleEnqueue env clk now_ms task s))) \<noteq> None"
  by (cases "getPRD env clk s") (simp add: handleEnqueue_def Let_def)

lemma handlers_keep_ledger_stored:
  assumes "st_prd s \<noteq> None"
  shows "st_prd (fst (snd (handleEnqueue env clk now_ms task s))) \<noteq> None"
    and "st_prd (fst (snd (handleComplete realm env clk taskId result s))) \<noteq> None"
    and "st_prd (fst (snd (handleFail realm env clk taskId err s))) \<noteq> None"
    and "st_prd (fst (snd (handleGetNextTask env clk s))) \<noteq> None"
    and "st_prd (fst (alarm env clk fetch_outcome s)) \<noteq> None"
proof -
  from assms obtain prd where st: "st_prd s = Some prd" by auto
  then have g: "getPRD env clk s = (prd, s, [])" by (rule getPRD_stored)
  show "st_prd (fst (snd (handleEnqueue env clk now_ms task s))) \<noteq> None"
    by (rule enqueue_stores_ledger)
  show "st_prd (fst (snd (handleComplete realm env clk taskId result s))) \<noteq> None"
    using g st
    by (auto simp: handleComplete_def Let_def appendProgress_def
             split: property.splits proto_value.splits)
  show "st_prd (fst (snd (handleFail realm env clk taskId err s))) \<noteq> None"
    using g st
    by (auto simp: handleFail_def Let_def split: property.splits proto_value.splits)
  show "st_prd (fst (snd (handleGetNextTask env clk s))) \<noteq> None"
    using g st by (simp add: handleGetNextTask_def)
  show "st_prd (fst (alarm env clk fetch_outcome s)) \<noteq> None"
    using g st
    by (cases fetch_outcome; cases "alarm_loop [] (tasks prd)") (auto simp: alarm_def Let_def)
qed

subsection \<open>The dispatch loop\<close>

lemma alarm_loop_first:
  "i < length xs \<Longrightarrow> eligible (snd (xs ! i)) \<Longrightarrow> \<forall>j<i. \<not> eligible (snd (xs ! j)) \<Longrightarrow>
   alarm_loop seen xs =
     Some (seen @ xs[i := (fst (xs ! i), (snd (xs ! i))\<lparr>attempts := attempts (snd (xs ! i)) + 1\<rparr>)],
           fst (xs ! i), (snd (xs ! i))\<lparr>attempts := attempts (snd (xs ! i)) + 1\<rparr>)"
proof (induction xs arbitrary: seen i)
  case Nil
  then show ?case by simp
next
  case (Cons x xs)
  obtain k t where x: "x = (k, t)" by (cases x)
  show ?case
  proof (cases i)
    case 0
    with Cons.prems x show ?thesis by (simp add: Let_def)
  next
    case (Suc n)
    with Cons.prems have ne: "\<not> eligible t" using x by auto
    from Suc Cons.prems have "n < length xs" "eligible (snd (xs ! n))" "\<forall>j<n. \<not> eligible (snd (xs ! j))"
      by auto
    from Cons.IH[OF this, of "seen @ [(k, t)]"] ne x Suc show ?thesis by simp
  qed
qed

lemma alarm_loop_none:
  "\<forall>j<length xs. \<not> eligible (snd (xs ! j)) \<Longrightarrow> alarm_loop seen xs = None"
proof (induction xs arbitrary: seen)
  case Nil
  then show ?case by simp
next
  case (Cons x xs)
  obtain k t where x: "x = (k, t)" by (cases x)
  from Cons.prems have "\<not> eligible t" using x by auto
  moreover from Cons.prems have "\<forall>j<length xs. \<not> eligible (snd (xs ! j))" by auto
  ultimately show ?case using Cons.IH x by simp
qed

text \<open>
  C3. Each firing of the alarm reads the ledger, takes the first entry in enumeration
  order with \<open>passes = False\<close> and \<open>attempts < 3\<close>, adds one to the attempts of that entry
  and of no other, writes the ledger to storage and only then issues the request to the
  execution server: exactly one request, for that task. When no entry is eligible the
  firing sends no request and leaves the storage as it found it; the one thing that can
  differ is the lazy initialisation of \<^verbatim>\<open>getPRD\<close> when the ledger key was never written,
  which cannot be the case after an enqueue has armed the alarm.
\<close>

theorem alarm_dispatches_first_eligible:
  assumes g: "getPRD env clk s = (prd, s1, es)"
  shows "((\<forall>j<length (tasks prd). \<not> eligible (snd (tasks prd ! j))) \<longrightarrow>
            alarm env clk fetch_outcome s = (s1, es) \<and> requests_sent es = []
            \<and> (st_prd s \<noteq> None \<longrightarrow> s1 = s \<and> es = []))
       \<and> (\<forall>i<length (tasks prd).
            eligible (snd (tasks prd ! i)) \<and> (\<forall>j<i. \<not> eligible (snd (tasks prd ! j))) \<longrightarrow>
            (\<exists>taskId task task' prd'.
               tasks prd ! i = (taskId, task)
               \<and> task' = task\<lparr>attempts := attempts task + 1\<rparr>
               \<and> prd' = prd\<lparr>tasks := (tasks prd)[i := (taskId, task')]\<rparr>
               \<and> alarm env clk fetch_outcome s =
                   (s1\<lparr>st_prd := Some prd'\<rparr>,
                    es @ [StoragePutPrd prd', executeRequest env taskId task'])
               \<and> requests_sent (snd (alarm env clk fetch_outcome s)) =
                   [\<lparr> q_taskId = taskId,
                      q_repoUrl = ''https://github.com/'' @ GITHUB_REPO_OWNER env @ ''/''
                                  @ GITHUB_REPO_NAME env @ ''.git'',
                      q_baseBranch = ''main'',
                      q_branchName = branchName task,
                      q_prompt = description task,
                      q_maxIterations = 10,
                      q_callbackUrl = ''https://ralph-coordinator.'' @ EXECUTION_SERVER_URL env
                                      @ ''/callbacks/execution'' \<rparr>]))"
proof (intro conjI impI allI)
  assume none: "\<forall>j<length (tasks prd). \<not> eligible (snd (tasks prd ! j))"
  show "alarm env clk fetch_outcome s = (s1, es)"
    using g alarm_loop_none[OF none, of "[]"] by (simp add: alarm_def)
  show "requests_sent es = []" using getPRD_effects[OF g] by simp
next
  assume "st_prd s \<noteq> None"
  then show "s1 = s" "es = []" using getPRD_stored_iff[OF g] by simp_all
next
  fix i
  assume i: "i < length (tasks prd)"
    and el: "eligible (snd (tasks prd ! i)) \<and> (\<forall>j<i. \<not> eligible (snd (tasks prd ! j)))"
  obtain taskId task where kt: "tasks prd ! i = (taskId, task)" by (cases "tasks prd ! i")
  define task' where "task' = task\<lparr>attempts := attempts task + 1\<rparr>"
  define prd' where "prd' = prd\<lparr>tasks := (tasks prd)[i := (taskId, task')]\<rparr>"
  from el have e1: "eligible (snd (tasks prd ! i))" and e2: "\<forall>j<i. \<not> eligible (snd (tasks prd ! j))"
    by simp_all
  have loop: "alarm_loop [] (tasks prd) = Some ((tasks prd)[i := (taskId, task')], taskId, task')"
    using alarm_loop_first[OF i e1 e2, of "[]"] kt by (simp add: task'_def)
  have a: "alarm env clk fetch_outcome s =
             (s1\<lparr>st_prd := Some prd'\<rparr>, es @ [StoragePutPrd prd', executeRequest env taskId task'])"
    using g loop by (cases fetch_outcome) (simp_all add: alarm_def prd'_def Let_def)
  have r: "requests_sent (snd (alarm env clk fetch_outcome s)) =
             [\<lparr> q_taskId = taskId,
                q_repoUrl = ''https://github.com/'' @ GITHUB_REPO_OWNER env @ ''/''
                            @ GITHUB_REPO_NAME env @ ''.git'',
                q_baseBranch = ''main'',
                q_branchName = branchName task,
                q_prompt = description task,
                q_maxIterations = 10,
                q_callbackUrl = ''https://ralph-coordinator.'' @ EXECUTION_SERVER_URL env
                                @ ''/callbacks/execution'' \<rparr>]"
    using getPRD_effects[OF g]
    by (simp add: a requests_sent_append executeRequest_def task'_def)
  show "\<exists>taskId task task' prd'.
               tasks prd ! i = (taskId, task)
               \<and> task' = task\<lparr>attempts := attempts task + 1\<rparr>
               \<and> prd' = prd\<lparr>tasks := (tasks prd)[i := (taskId, task')]\<rparr>
               \<and> alarm env clk fetch_outcome s =
                   (s1\<lparr>st_prd := Some prd'\<rparr>,
                    es @ [StoragePutPrd prd', executeRequest env taskId task'])
               \<and> requests_sent (snd (alarm env clk fetch_outcome s)) =
                   [\<lparr> q_taskId = taskId,
                      q_repoUrl = ''https://github.com/'' @ GITHUB_REPO_OWNER env @ ''/''
                                  @ GITHUB_REPO_NAME env @ ''.git'',
                      q_baseBranch = ''main'',
                      q_branchName = branchName task,
                      q_prompt = description task,
                      q_maxIterations = 10,
                      q_callbackUrl = ''https://ralph-coordinator.'' @ EXECUTION_SERVER_URL env
                                      @ ''/callbacks/execution'' \<rparr>]"
    using kt a r task'_def prd'_def by blast
qed

text \<open>
  The theorem at work: with a passed task first and a fresh one second, the firing
  dispatches the second; with only the passed task, it does nothing.
\<close>

theorem alarm_dispatches_first_eligible_witness:
  "getPRD ex_env ex_clock (ex_storage [(''T0'', ex_entry True 1), (''T1'', ex_entry False 0)]) =
     (ex_prd [(''T0'', ex_entry True 1), (''T1'', ex_entry False 0)],
      ex_storage [(''T0'', ex_entry True 1), (''T1'', ex_entry False 0)], [])
   \<and> \<not> eligible (ex_entry True 1) \<and> eligible (ex_entry False 0)
   \<and> alarm ex_env ex_clock (Returns ())
        (ex_storage [(''T0'', ex_entry True 1), (''T1'', ex_entry False 0)]) =
       (ex_storage [(''T0'', ex_entry True 1), (''T1'', ex_entry False 1)],
        [StoragePutPrd (ex_prd [(''T0'', ex_entry True 1), (''T1'', ex_entry False 1)]),
         executeRequest ex_env ''T1'' (ex_entry False 1)])
   \<and> alarm ex_env ex_clock (Returns ()) (ex_storage [(''T0'', ex_entry True 1)]) =
       (ex_storage [(''T0'', ex_entry True 1)], [])"
proof -
  let ?ts = "[(''T0'', ex_entry True 1), (''T1'', ex_entry False 0)]"
  have g: "getPRD ex_env ex_clock (ex_storage ?ts) = (ex_prd ?ts, ex_storage ?ts, [])"
    by (simp add: getPRD_def ex_storage_def)
  have g0: "getPRD ex_env ex_clock (ex_storage [(''T0'', ex_entry True 1)]) =
              (ex_prd [(''T0'', ex_entry True 1)], ex_storage [(''T0'', ex_entry True 1)], [])"
    by (simp add: getPRD_def ex_storage_def)
  have e: "\<not> eligible (ex_entry True 1)" "eligible (ex_entry False 0)"
    by (simp_all add: eligible_def ex_entry_def)
  from alarm_dispatches_first_eligible[OF g, of "Returns ()"] e
  have a1: "alarm ex_env ex_clock (Returns ()) (ex_storage ?ts) =
       (ex_storage [(''T0'', ex_entry True 1), (''T1'', ex_entry False 1)],
        [StoragePutPrd (ex_prd [(''T0'', ex_entry True 1), (''T1'', ex_entry False 1)]),
         executeRequest ex_env ''T1'' (ex_entry False 1)])"
    by (simp add: ex_prd_def ex_storage_def ex_entry_def All_less_Suc)
  from alarm_dispatches_first_eligible[OF g0, of "Returns ()"] e
  have a0: "alarm ex_env ex_clock (Returns ()) (ex_storage [(''T0'', ex_entry True 1)]) =
       (ex_storage [(''T0'', ex_entry True 1)], [])"
    by (simp add: ex_prd_def ex_storage_def)
  from g e a1 a0 show ?thesis by simp
qed

text \<open>
  C1. The claim asks every mutation of the ledger to raise \<open>version\<close>. The handlers
  for enqueue, complete and fail do (\<open>mutating_handlers_bump_version\<close> below); the alarm
  handler does not: here it stores a ledger whose entry went from 0 to 1 attempts under
  the same version 2.
\<close>

theorem alarm_mutates_without_version_bump:
  "ledger_entry (ex_storage [(''T1'', ex_entry False 0)]) ''T1'' = Some (ex_entry False 0)
   \<and> map_option version (st_prd (ex_storage [(''T1'', ex_entry False 0)])) = Some 2
   \<and> ledger_entry (fst (alarm ex_env ex_clock (Returns ())
                           (ex_storage [(''T1'', ex_entry False 0)]))) ''T1'' =
       Some (ex_entry False 1)
   \<and> map_option version (st_prd (fst (alarm ex_env ex_clock (Returns ())
                                        (ex_storage [(''T1'', ex_entry False 0)])))) = Some 2"
  by (simp add: alarm_def getPRD_def ex_storage_def ex_prd_def ex_entry_def eligible_def Let_def
        ledger_entry_def)

lemma mutating_handlers_bump_version:
  assumes "getPRD env clk s = (prd, s1, es)"
  shows "map_option version (st_prd (fst (snd (handleEnqueue env clk now_ms task s)))) =
           Some (version prd + 1)"
    and "map_of (tasks prd) taskId \<noteq> None \<Longrightarrow>
         map_option version (st_prd (fst (snd (handleComplete realm env clk taskId result s)))) =
           Some (version prd + 1)"
    and "map_of (tasks prd) taskId \<noteq> None \<Longrightarrow>
         map_option version (st_prd (fst (snd (handleFail realm env clk taskId err s)))) =
           Some (version prd + 1)"
  using assms
  by (auto simp: handleEnqueue_def handleComplete_def handleFail_def Let_def appendProgress_def
        obj_get_def)

lemma alarm_keeps_version:
  assumes "getPRD env clk s = (prd, s1, es)"
  shows "map_option version (st_prd (fst (alarm env clk fetch_outcome s))) = Some (version prd)"
proof -
  from assms have "st_prd s1 = Some prd" by (rule getPRD_stores)
  with assms show ?thesis
    by (cases fetch_outcome; cases "alarm_loop [] (tasks prd)")
       (auto simp: alarm_def Let_def)
qed

subsection \<open>Arming the alarm\<close>

text \<open>
  The claim C4 as stated fails: after this firing the only task is still eligible (one
  attempt of three used), and the handler has armed no alarm.
\<close>

theorem alarm_leaves_timer_unarmed_counterexample:
  "nextTask (tasks (ex_prd [(''T1'', ex_entry False 0)])) \<noteq> None
   \<and> fst (alarm ex_env ex_clock (Returns ()) (ex_storage [(''T1'', ex_entry False 0)])) =
       ex_storage [(''T1'', ex_entry False 1)]
   \<and> nextTask (tasks (ex_prd [(''T1'', ex_entry False 1)])) = Some (''T1'', ex_entry False 1)
   \<and> alarms_set (snd (alarm ex_env ex_clock (Returns ())
                         (ex_storage [(''T1'', ex_entry False 0)]))) = []"
  by (simp add: alarm_def getPRD_def ex_storage_def ex_prd_def ex_entry_def eligible_def Let_def
        executeRequest_def)

text \<open>
  C4, as the code has it. The alarm is armed by enqueue alone, for 1000 ms after the
  call. A firing of the alarm handler never arms it, and neither do complete, fail or
  the next-task query; so after a firing, work that is still eligible waits for the next
  enqueue.
\<close>

theorem only_enqueue_arms_the_alarm:
  "alarms_set (snd (alarm env clk fetch_outcome s)) = []
   \<and> alarms_set (snd (snd (handleComplete realm env clk taskId result s))) = []
   \<and> alarms_set (snd (snd (handleFail realm env clk taskId err s))) = []
   \<and> alarms_set (snd (snd (handleGetNextTask env clk s))) = []
   \<and> alarms_set (snd (snd (handleEnqueue env clk now_ms task s))) = [now_ms + 1000]"
proof -
  obtain prd s1 es where g: "getPRD env clk s = (prd, s1, es)"
    by (cases "getPRD env clk s")
  then have es: "alarms_set es = []" using getPRD_effects by blast
  have 1: "alarms_set (snd (alarm env clk fetch_outcome s)) = []"
    using g es
    by (cases fetch_outcome; cases "alarm_loop [] (tasks prd)")
       (auto simp: alarm_def Let_def alarms_set_append executeRequest_def)
  have 2: "alarms_set (snd (snd (handleComplete realm env clk taskId result s))) = []"
    using g es
    by (auto simp: handleComplete_def Let_def alarms_set_append appendProgress_def
             split: property.splits proto_value.splits)
  have 3: "alarms_set (snd (snd (handleFail realm env clk taskId err s))) = []"
    using g es
    by (auto simp: handleFail_def Let_def alarms_set_append
             split: property.splits proto_value.splits)
  have 4: "alarms_set (snd (snd (handleGetNextTask env clk s))) = []"
    using g es by (simp add: handleGetNextTask_def)
  have 5: "alarms_set (snd (snd (handleEnqueue env clk now_ms task s))) = [now_ms + 1000]"
    using g es by (simp add: handleEnqueue_def Let_def alarms_set_append)
  from 1 2 3 4 5 show ?thesis by simp
qed

theorem only_enqueue_arms_the_alarm_witness:
  "alarms_set (snd (alarm ex_env ex_clock (Returns ()) (ex_storage [(''T1'', ex_entry False 0)]))) = []
   \<and> alarms_set (snd (snd (handleEnqueue ex_env ex_clock 5000 ex_task (ex_storage [])))) = [6000]"
  using only_enqueue_arms_the_alarm[where env = ex_env and clk = ex_clock
          and fetch_outcome = "Returns ()" and s = "ex_storage [(''T1'', ex_entry False 0)]"]
        only_enqueue_arms_the_alarm[where env = ex_env and clk = ex_clock
          and s = "ex_storage []" and now_ms = 5000 and task = ex_task]
  by simp

subsection \<open>Enqueueing\<close>

text \<open>
  C7. The claim asks that after an enqueue, and after a second enqueue of the same id,
  the ledger holds under that id an entry with \<open>passes = False\<close> and \<open>attempts = 0\<close>, for
  every task id. For the id \<^verbatim>\<open>__proto__\<close> the assignment in \<^verbatim>\<open>handleEnqueue\<close> sets the
  prototype of the tasks object instead of a property: the handler answers ok, raises
  the version and arms the alarm, and the ledger it stores has no entry under that id,
  after one enqueue and after two. For every other id the entry is reset as the claim
  says (\<open>enqueue_resets_other_ids\<close> below).
\<close>

theorem enqueue_proto_stores_no_entry:
  "t_id ex_task_proto = ''__proto__''
   \<and> handleEnqueue ex_env ex_clock 0 ex_task_proto (ex_storage [(''T1'', ex_entry True 2)]) =
       (OkTaskId ''__proto__'',
        \<lparr> st_prd = Some \<lparr> projectName = ''demo'', tasks = [(''T1'', ex_entry True 2)],
                          version = 3, updatedAt = ''2026-01-01T00:00:00.000Z'' \<rparr>,
          st_progress = None \<rparr>,
        [StoragePutPrd \<lparr> projectName = ''demo'', tasks = [(''T1'', ex_entry True 2)],
                         version = 3, updatedAt = ''2026-01-01T00:00:00.000Z'' \<rparr>,
         SetAlarm 1000])
   \<and> ledger_entry
        (fst (snd (handleEnqueue ex_env ex_clock 0 ex_task_proto
                     (ex_storage [(''T1'', ex_entry True 2)])))) ''__proto__'' = None
   \<and> ledger_entry
        (fst (snd (handleEnqueue ex_env ex_clock 5 ex_task_proto
                     (fst (snd (handleEnqueue ex_env ex_clock 0 ex_task_proto
                                  (ex_storage [(''T1'', ex_entry True 2)]))))))) ''__proto__'' =
       None"
  by (simp add: handleEnqueue_def getPRD_def ex_task_proto_def ex_task_def ex_storage_def
        ex_prd_def ex_clock_def Let_def obj_set_def ledger_entry_def)

lemma enqueue_resets_other_ids:
  assumes "t_id task \<noteq> ''__proto__''"
  shows "ledger_entry (fst (snd (handleEnqueue env clk now_ms task s))) (t_id task) =
           Some \<lparr> description = t_description task, branchName = t_branch task,
                  passes = False, prUrl = None, attempts = 0, lastAttemptAt = None,
                  error = None \<rparr>"
  using assms
  by (cases "getPRD env clk s")
     (simp add: handleEnqueue_def ledger_entry_def Let_def map_of_obj_set)

lemma enqueue_twice_resets_other_ids:
  assumes "t_id task \<noteq> ''__proto__''" and "t_id task' = t_id task"
  shows "ledger_entry
           (fst (snd (handleEnqueue env' clk' now_ms' task'
                        (fst (snd (handleEnqueue env clk now_ms task s)))))) (t_id task) =
           Some \<lparr> description = t_description task', branchName = t_branch task',
                  passes = False, prUrl = None, attempts = 0, lastAttemptAt = None,
                  error = None \<rparr>"
  using assms
    enqueue_resets_other_ids[of task' env' clk' now_ms'
      "fst (snd (handleEnqueue env clk now_ms task s))"]
  by simp

subsection \<open>Completing a task\<close>

lemma starts_with_iff: "starts_with s p \<longleftrightarrow> (\<exists>b. s = p @ b)"
  by (induction s p rule: starts_with.induct) auto

lemma str_includes_iff: "str_includes s p \<longleftrightarrow> (\<exists>a b. s = a @ p @ b)"
proof (induction s)
  case Nil
  then show ?case by auto
next
  case (Cons c cs)
  show ?case
  proof
    assume "str_includes (c # cs) p"
    then consider "starts_with (c # cs) p" | "str_includes cs p" by auto
    then show "\<exists>a b. c # cs = a @ p @ b"
    proof cases
      case 1
      then obtain b where "c # cs = p @ b" by (auto simp: starts_with_iff)
      then have "c # cs = [] @ p @ b" by simp
      then show ?thesis by blast
    next
      case 2
      then obtain a b where "cs = a @ p @ b" using Cons.IH by blast
      then have "c # cs = (c # a) @ p @ b" by simp
      then show ?thesis by blast
    qed
  next
    assume "\<exists>a b. c # cs = a @ p @ b"
    then obtain a b where ab: "c # cs = a @ p @ b" by blast
    show "str_includes (c # cs) p"
    proof (cases a)
      case Nil
      with ab have "starts_with (c # cs) p" by (auto simp: starts_with_iff)
      then show ?thesis by simp
    next
      case (Cons x a')
      with ab have "cs = a' @ p @ b" by simp
      then have "str_includes cs p" using Cons.IH by blast
      then show ?thesis by simp
    qed
  qed
qed

lemma join_contains: "x \<in> set xs \<Longrightarrow> \<exists>a b. join sep xs = a @ x @ b"
proof (induction sep xs rule: join.induct)
  case (1 sep)
  then show ?case by simp
next
  case (2 sep y)
  then have "join sep [y] = [] @ x @ []" by simp
  then show ?case by blast
next
  case (3 sep y z zs)
  show ?case
  proof (cases "x = y")
    case True
    then have "join sep (y # z # zs) = [] @ x @ (sep @ join sep (z # zs))" by simp
    then show ?thesis by blast
  next
    case False
    with 3 obtain a b where "join sep (z # zs) = a @ x @ b" by auto
    then have "join sep (y # z # zs) = (y @ sep @ a) @ x @ b" by simp
    then show ?thesis by blast
  qed
qed

lemma renderProgress_learning:
  "l \<in> set (p_learnings entry) \<Longrightarrow> str_includes (renderProgress entry) (CHR ''-'' # CHR '' '' # l)"
proof -
  assume "l \<in> set (p_learnings entry)"
  then have "str_includes (renderProgress entry) (''- '' @ l)"
    unfolding str_includes_iff renderProgress_def
    by (intro join_contains) auto
  then show ?thesis by simp
qed

text \<open>
  The claim C8 as stated fails for unknown ids, in two ways. On a storage whose ledger
  was never written, \<^verbatim>\<open>complete\<close> of an unknown id answers not found, but
  \<^verbatim>\<open>getPRD\<close> has by then stored the empty ledger. And for an id that is no entry but a
  name the tasks object inherits, here \<^verbatim>\<open>constructor\<close>, the guard does not fire: the
  handler answers ok, raises the version from 2 to 3 and appends to the progress log.
\<close>

theorem complete_unknown_id_counterexample:
  "ledger_entry ex_storage_unwritten ''T9'' = None
   \<and> handleComplete fresh_realm ex_env ex_clock ''T9'' (ex_result [''x''])
        ex_storage_unwritten =
       (TaskNotFound,
        \<lparr> st_prd = Some \<lparr> projectName = ''demo'', tasks = [], version = 1,
                          updatedAt = ''2026-01-01T00:00:00.000Z'' \<rparr>,
          st_progress = None \<rparr>,
        [StoragePutPrd \<lparr> projectName = ''demo'', tasks = [], version = 1,
                         updatedAt = ''2026-01-01T00:00:00.000Z'' \<rparr>])
   \<and> ledger_entry (ex_storage [(''T1'', ex_entry False 1)]) ''constructor'' = None
   \<and> fst (handleComplete fresh_realm ex_env ex_clock ''constructor'' (ex_result [''x''])
             (ex_storage [(''T1'', ex_entry False 1)])) = OkPlain
   \<and> map_option version
        (st_prd (fst (snd (handleComplete fresh_realm ex_env ex_clock ''constructor''
                             (ex_result [''x'']) (ex_storage [(''T1'', ex_entry False 1)]))))) =
       Some 3
   \<and> length (progress_writes
        (snd (snd (handleComplete fresh_realm ex_env ex_clock ''constructor''
                     (ex_result [''x'']) (ex_storage [(''T1'', ex_entry False 1)]))))) = 1"
  by (simp add: handleComplete_def getPRD_def obj_get_def fresh_realm_def
        object_prototype_names_def ex_storage_unwritten_def ex_storage_def ex_prd_def
        ex_env_def ex_clock_def ex_result_def Let_def ledger_entry_def appendProgress_def)

text \<open>
  C8, as the code has it. For a task id that has an entry in the ledger, \<^verbatim>\<open>complete\<close>
  answers ok, sets \<open>passes\<close> to the result's \<open>success\<close>, sets \<open>prUrl\<close> and
  \<open>lastAttemptAt\<close>, and leaves every other field of the entry, \<open>attempts\<close> among them, and
  every other entry as they were. With a non-empty list of learnings it appends to the
  progress log exactly one rendered entry, which carries those learnings, each on a line
  of its own; with an empty list it does not touch the log. For a task id that has no
  entry and under which the tasks object inherits nothing truthy, it answers not found
  and changes no entry and no log: a stored ledger is left as it is, and when no ledger
  was ever written the one change is the empty ledger that \<^verbatim>\<open>getPRD\<close> initialises.
\<close>

theorem handleComplete_spec:
  "(ledger_entry s taskId = Some entry \<longrightarrow>
      (\<exists>s' es.
         handleComplete realm env clk taskId result s = (OkPlain, s', es)
         \<and> ledger_entry s' taskId =
             Some (entry\<lparr> passes := r_success result, prUrl := r_prUrl result,
                          lastAttemptAt := Some (clk At_complete_lastAttemptAt) \<rparr>)
         \<and> map_option attempts (ledger_entry s' taskId) = Some (attempts entry)
         \<and> (\<forall>k. k \<noteq> taskId \<longrightarrow> ledger_entry s' k = ledger_entry s k)
         \<and> (r_learnings result \<noteq> [] \<longrightarrow>
              (\<exists>text. st_progress s' = Some (getProgress s @ text)
                 \<and> text = renderProgress \<lparr> p_timestamp = clk At_complete_timestamp,
                                           p_taskId = taskId,
                                           p_description = description entry,
                                           p_learnings = r_learnings result,
                                           p_filesChanged = [] \<rparr>
                 \<and> (\<forall>l \<in> set (r_learnings result). str_includes text (''- '' @ l))
                 \<and> progress_writes es = [getProgress s @ text]))
         \<and> (r_learnings result = [] \<longrightarrow> st_progress s' = st_progress s \<and> progress_writes es = [])))
   \<and> (ledger_entry s taskId = None \<and> realm taskId = Falsy \<longrightarrow>
        (\<exists>s' es.
           handleComplete realm env clk taskId result s = (TaskNotFound, s', es)
           \<and> (s', es) = snd (getPRD env clk s)
           \<and> (st_prd s \<noteq> None \<longrightarrow> s' = s \<and> es = [])
           \<and> (st_prd s = None \<longrightarrow>
                 (\<exists>prd. tasks prd = [] \<and> version prd = 1
                    \<and> s' = s\<lparr>st_prd := Some prd\<rparr> \<and> es = [StoragePutPrd prd]))
           \<and> (\<forall>k. ledger_entry s' k = ledger_entry s k)
           \<and> st_progress s' = st_progress s \<and> progress_writes es = []))"
proof (intro conjI impI)
  assume ex: "ledger_entry s taskId = Some entry"
  then obtain prd where st: "st_prd s = Some prd" and m: "map_of (tasks prd) taskId = Some entry"
    by (auto simp: ledger_entry_def split: option.splits)
  have own: "obj_get realm (tasks prd) taskId = Own entry" using m by (rule obj_get_Own)
  show "\<exists>s' es.
         handleComplete realm env clk taskId result s = (OkPlain, s', es)
         \<and> ledger_entry s' taskId =
             Some (entry\<lparr> passes := r_success result, prUrl := r_prUrl result,
                          lastAttemptAt := Some (clk At_complete_lastAttemptAt) \<rparr>)
         \<and> map_option attempts (ledger_entry s' taskId) = Some (attempts entry)
         \<and> (\<forall>k. k \<noteq> taskId \<longrightarrow> ledger_entry s' k = ledger_entry s k)
         \<and> (r_learnings result \<noteq> [] \<longrightarrow>
              (\<exists>text. st_progress s' = Some (getProgress s @ text)
                 \<and> text = renderProgress \<lparr> p_timestamp = clk At_complete_timestamp,
                                           p_taskId = taskId,
                                           p_description = description entry,
                                           p_learnings = r_learnings result,
                                           p_filesChanged = [] \<rparr>
                 \<and> (\<forall>l \<in> set (r_learnings result). str_includes text (''- '' @ l))
                 \<and> progress_writes es = [getProgress s @ text]))
         \<and> (r_learnings result = [] \<longrightarrow> st_progress s' = st_progress s \<and> progress_writes es = [])"
  proof (cases "r_learnings result = []")
    case True
    then show ?thesis
      using st m own
      by (simp add: handleComplete_def getPRD_stored ledger_entry_def map_of_obj_modify Let_def)
  next
    case False
    have inc: "\<forall>l \<in> set (r_learnings result).
                 str_includes (renderProgress \<lparr> p_timestamp = clk At_complete_timestamp,
                                                p_taskId = taskId,
                                                p_description = description entry,
                                                p_learnings = r_learnings result,
                                                p_filesChanged = [] \<rparr>) (''- '' @ l)"
      using renderProgress_learning by (intro ballI) simp
    from False show ?thesis
      using st m own inc
      by (simp add: handleComplete_def getPRD_stored ledger_entry_def map_of_obj_modify Let_def
            appendProgress_def getProgress_def)
  qed
next
  assume no: "ledger_entry s taskId = None \<and> realm taskId = Falsy"
  show "\<exists>s' es.
           handleComplete realm env clk taskId result s = (TaskNotFound, s', es)
           \<and> (s', es) = snd (getPRD env clk s)
           \<and> (st_prd s \<noteq> None \<longrightarrow> s' = s \<and> es = [])
           \<and> (st_prd s = None \<longrightarrow>
                 (\<exists>prd. tasks prd = [] \<and> version prd = 1
                    \<and> s' = s\<lparr>st_prd := Some prd\<rparr> \<and> es = [StoragePutPrd prd]))
           \<and> (\<forall>k. ledger_entry s' k = ledger_entry s k)
           \<and> st_progress s' = st_progress s \<and> progress_writes es = []"
  proof (cases "st_prd s")
    case None
    with no show ?thesis
      by (simp add: handleComplete_def getPRD_def ledger_entry_def Let_def obj_get_def)
  next
    case (Some prd)
    with no have "map_of (tasks prd) taskId = None" by (simp add: ledger_entry_def)
    with Some no show ?thesis
      by (simp add: handleComplete_def getPRD_stored obj_get_def)
  qed
qed

text \<open>
  The theorem at work on a storage whose progress log already has text: completing the
  known task \<open>T1\<close> with one learning appends one entry after that text, completing it
  with none leaves the log alone, and completing the unknown \<open>T9\<close> changes nothing.
\<close>

theorem handleComplete_spec_witness:
  "ledger_entry (ex_storage_logged [(''T1'', ex_entry False 1)]) ''T1'' = Some (ex_entry False 1)
   \<and> ledger_entry (ex_storage_logged [(''T1'', ex_entry False 1)]) ''T9'' = None
   \<and> fresh_realm ''T9'' = Falsy
   \<and> (\<exists>s' es text.
        handleComplete fresh_realm ex_env ex_clock ''T1'' (ex_result [''x''])
          (ex_storage_logged [(''T1'', ex_entry False 1)]) = (OkPlain, s', es)
        \<and> map_option passes (ledger_entry s' ''T1'') = Some True
        \<and> map_option attempts (ledger_entry s' ''T1'') = Some 1
        \<and> st_progress s' = Some (''# Progress'' @ text)
        \<and> progress_writes es = [''# Progress'' @ text]
        \<and> str_includes text ''- x'')
   \<and> (\<exists>s' es.
        handleComplete fresh_realm ex_env ex_clock ''T1'' (ex_result [])
          (ex_storage_logged [(''T1'', ex_entry False 1)]) = (OkPlain, s', es)
        \<and> st_progress s' = Some ''# Progress'' \<and> progress_writes es = [])
   \<and> handleComplete fresh_realm ex_env ex_clock ''T9'' (ex_result [''x''])
        (ex_storage_logged [(''T1'', ex_entry False 1)]) =
       (TaskNotFound, ex_storage_logged [(''T1'', ex_entry False 1)], [])"
proof -
  let ?s = "ex_storage_logged [(''T1'', ex_entry False 1)]"
  have h1: "ledger_entry ?s ''T1'' = Some (ex_entry False 1)"
    by (simp add: ledger_entry_def ex_storage_logged_def ex_prd_def)
  have h2: "ledger_entry ?s ''T9'' = None"
    by (simp add: ledger_entry_def ex_storage_logged_def ex_prd_def)
  have h3: "fresh_realm ''T9'' = Falsy"
    by (simp add: fresh_realm_def object_prototype_names_def)
  have st: "st_prd ?s \<noteq> None" "st_progress ?s = Some ''# Progress''"
    "getProgress ?s = ''# Progress''"
    by (simp_all add: ex_storage_logged_def getProgress_def)
  have r: "r_learnings (ex_result [''x'']) = [''x'']" "r_learnings (ex_result []) = []"
    "r_success (ex_result [''x'']) = True"
    by (simp_all add: ex_result_def)
  from handleComplete_spec[of ?s "''T1''" "ex_entry False 1" fresh_realm ex_env ex_clock
         "ex_result [''x'']"] h1 r st
  have a: "\<exists>s' es text.
        handleComplete fresh_realm ex_env ex_clock ''T1'' (ex_result [''x'']) ?s = (OkPlain, s', es)
        \<and> map_option passes (ledger_entry s' ''T1'') = Some True
        \<and> map_option attempts (ledger_entry s' ''T1'') = Some 1
        \<and> st_progress s' = Some (''# Progress'' @ text)
        \<and> progress_writes es = [''# Progress'' @ text]
        \<and> str_includes text ''- x''"
    by (auto simp: ex_entry_def)
  from handleComplete_spec[of ?s "''T1''" "ex_entry False 1" fresh_realm ex_env ex_clock
         "ex_result []"] h1 r st
  have b: "\<exists>s' es.
        handleComplete fresh_realm ex_env ex_clock ''T1'' (ex_result []) ?s = (OkPlain, s', es)
        \<and> st_progress s' = Some ''# Progress'' \<and> progress_writes es = []"
    by auto
  from handleComplete_spec[of ?s "''T9''" "ex_entry False 1" fresh_realm ex_env ex_clock
         "ex_result [''x'']"] h2 h3 st
  have c: "handleComplete fresh_realm ex_env ex_clock ''T9'' (ex_result [''x'']) ?s =
             (TaskNotFound, ?s, [])"
    by auto
  from h1 h2 h3 a b c show ?thesis by blast
qed

section \<open>Facts about the Execution Agent\<close>

lemma notifyCallback_returns:
  "notifyCallback w url result = (Returns (), [Callback url result])"
  by (cases "w_callbackFetch w") (simp_all add: notifyCallback_def)

lemma deleteWorktree_returns:
  "deleteWorktree w path = (Returns (), [DeleteWorktree path])"
  by (cases "w_worktreeRemove w") (simp_all add: deleteWorktree_def)

lemma callbacks_append: "callbacks (xs @ ys) = callbacks xs @ callbacks ys"
  by (induction xs rule: callbacks.induct) auto

lemma commits_append: "commits (xs @ ys) = commits xs @ commits ys"
  by (induction xs rule: commits.induct) auto

lemma pushes_append: "pushes (xs @ ys) = pushes xs @ pushes ys"
  by (induction xs rule: pushes.induct) auto

lemma deletions_append: "deletions (xs @ ys) = deletions xs @ deletions ys"
  by (induction xs rule: deletions.induct) auto

lemma gate_runs_append: "gate_runs (xs @ ys) = gate_runs xs @ gate_runs ys"
  by (induction xs rule: gate_runs.induct) auto

lemma publishing_steps_append:
  "publishing_steps (xs @ ys) = publishing_steps xs @ publishing_steps ys"
  by (induction xs rule: publishing_steps.induct) auto

lemmas obs_append = callbacks_append commits_append pushes_append deletions_append
  gate_runs_append publishing_steps_append

text \<open>
  The try body ends in one of four ways: it throws before the quality gate has run; the
  gate fails and the body returns the failure result; the gate passes and a later step
  throws; or every step succeeds. In the first three no callback is sent and no worktree
  is deleted inside the body.
\<close>

lemma try_block_cases:
  "(\<exists>m st evs. try_block root w request state = (Throws m, st, evs)
       \<and> gate_runs evs = [] \<and> commits evs = [] \<and> pushes evs = []
       \<and> callbacks evs = [] \<and> deletions evs = [])
   \<or> (\<exists>res st evs wt. try_block root w request state = (Returns res, st, evs)
       \<and> (\<not> typecheck (runAll (w_project w)) \<or> \<not> tests (runAll (w_project w)))
       \<and> w_createWorktree w = Returns wt
       \<and> r_taskId res = q_taskId request
       \<and> r_success res = False
       \<and> r_error res = Some (''Quality checks failed: ''
                              @ join '', '' (errors (runAll (w_project w))))
       \<and> r_testsPass res = tests (runAll (w_project w))
       \<and> r_typecheckPass res = typecheck (runAll (w_project w))
       \<and> x_status st = Failed
       \<and> gate_runs evs = [wt] \<and> commits evs = [] \<and> pushes evs = []
       \<and> callbacks evs = [] \<and> deletions evs = [])
   \<or> (\<exists>m st evs wt. try_block root w request state = (Throws m, st, evs)
       \<and> typecheck (runAll (w_project w)) \<and> tests (runAll (w_project w))
       \<and> w_createWorktree w = Returns wt
       \<and> gate_runs evs = [wt] \<and> callbacks evs = [] \<and> deletions evs = [])
   \<or> (\<exists>res st evs wt. try_block root w request state = (Returns res, st, evs)
       \<and> typecheck (runAll (w_project w)) \<and> tests (runAll (w_project w))
       \<and> w_createWorktree w = Returns wt
       \<and> r_taskId res = q_taskId request
       \<and> r_success res = True \<and> r_error res = None
       \<and> r_testsPass res = True \<and> r_typecheckPass res = True
       \<and> x_status st = Completed
       \<and> gate_runs evs = [wt] \<and> commits evs = [wt]
       \<and> pushes evs = [(wt, q_branchName request)]
       \<and> callbacks evs =
           (if q_callbackUrl request = [] then []
            else [(q_callbackUrl request,
                   res\<lparr>r_duration := w_now w Now_success_callback - w_now w Now_start\<rparr>)])
       \<and> deletions evs = [wt]
       \<and> publishing_steps evs =
           [Commit wt, Push wt (q_branchName request)]
           @ (if q_callbackUrl request = [] then []
              else [Callback (q_callbackUrl request)
                      (res\<lparr>r_duration := w_now w Now_success_callback - w_now w Now_start\<rparr>)])
           @ [DeleteWorktree wt])"
  (is "?before \<or> ?gate \<or> ?after \<or> ?success")
proof (cases "w_cloneIfNeeded w")
  case (Throws m)
  then have ?before
    by (simp add: try_block_def Let_def)
  then show ?thesis by simp
next
  case c1: (Returns u1)
  show ?thesis
  proof (cases "w_createWorktree w")
    case (Throws m)
    then have ?before
      by (simp add: try_block_def Let_def c1)
    then show ?thesis by simp
  next
    case c2: (Returns wt)
    show ?thesis
    proof (cases "installDependencies (w_project w)")
      case (Throws m)
      then have ?before
        by (simp add: try_block_def Let_def c1 c2)
      then show ?thesis by simp
    next
      case c3: (Returns u2)
      show ?thesis
      proof (cases "w_generatePromptFile w")
        case (Throws m)
        then have ?before
          by (simp add: try_block_def Let_def c1 c2 c3)
        then show ?thesis by simp
      next
        case c4: (Returns pf)
        show ?thesis
        proof (cases "w_claude w")
          case (Throws m)
          then have ?before
            by (simp add: try_block_def Let_def c1 c2 c3 c4)
          then show ?thesis by simp
        next
          case c5: (Returns cr)
          show ?thesis
          proof (cases "c_success cr")
            case False
            then have ?before
              by (simp add: try_block_def Let_def c1 c2 c3 c4 c5)
            then show ?thesis by simp
          next
            case c6: True
            show ?thesis
            proof (cases "\<not> typecheck (runAll (w_project w)) \<or> \<not> tests (runAll (w_project w))")
              case True
              then have ?gate
                by (simp add: try_block_def Let_def c1 c2 c3 c4 c5 c6 obs_append)
              then show ?thesis by simp
            next
              case False
              then have c7: "typecheck (runAll (w_project w))" "tests (runAll (w_project w))"
                by simp_all
              show ?thesis
              proof (cases "w_getChangedFiles w")
                case (Throws m)
                then have ?after
                  by (simp add: try_block_def Let_def c1 c2 c3 c4 c5 c6 c7
                        obs_append)
                then show ?thesis by simp
              next
                case c8: (Returns files)
                show ?thesis
                proof (cases "files = []")
                  case True
                  then have ?after
                    by (simp add: try_block_def Let_def c1 c2 c3 c4 c5 c6
                          c7 c8 obs_append)
                  then show ?thesis by simp
                next
                  case c9: False
                  show ?thesis
                  proof (cases "w_commit w")
                    case (Throws m)
                    then have ?after
                      by (simp add: try_block_def Let_def c1 c2 c3 c4 c5
                            c6 c7 c8 c9 obs_append)
                    then show ?thesis by simp
                  next
                    case c10: (Returns u3)
                    show ?thesis
                    proof (cases "w_push w")
                      case (Throws m)
                      then have ?after
                        by (simp add: try_block_def Let_def c1 c2 c3 c4
                              c5 c6 c7 c8 c9 c10 obs_append)
                      then show ?thesis by simp
                    next
                      case c11: (Returns u4)
                      have ?success
                        by (simp add: try_block_def Let_def c1 c2 c3 c4 c5 c6 c7
                              c8 c9 c10 c11 obs_append notifyCallback_returns
                              deleteWorktree_returns)
                      then show ?thesis by simp
                    qed
                  qed
                qed
              qed
            qed
          qed
        qed
      qed
    qed
  qed
qed

lemma execute_Returns:
  "try_block root w request (initial_state w request) = (Returns res, st, evs) \<Longrightarrow>
   execute root w request executions =
     (Returns res, executions(generateExecutionId w \<mapsto> st), evs)"
  by (simp add: execute_def Let_def)

lemma execute_Throws:
  "try_block root w request (initial_state w request) = (Throws m, st, evs) \<Longrightarrow>
   \<exists>res.
     execute root w request executions =
       (Returns res,
        executions(generateExecutionId w \<mapsto>
          st\<lparr>x_status := Failed, x_completedAt := Some (w_iso w Iso_completedAt_catch)\<rparr>),
        evs @ (if q_callbackUrl request = [] then []
               else [Callback (q_callbackUrl request)
                       (res\<lparr>r_duration := w_now w Now_catch_callback - w_now w Now_start\<rparr>)]))
     \<and> r_taskId res = q_taskId request \<and> r_success res = False \<and> r_error res = Some m
     \<and> r_testsPass res = False \<and> r_typecheckPass res = False"
  by (simp add: execute_def Let_def notifyCallback_returns)

lemmas ex_world_defs =
  ex_world_def ex_project_def ex_request_def ex_world_tests_fail_def ex_world_no_diff_def
  ex_world_push_rejected_def

lemmas pipeline_defs =
  execute_def try_block_def initial_state_def Let_def installDependencies_def
  getProgressContext_def runAll_def runTypecheck_def runTests_def runLint_def
  notifyCallback_def deleteWorktree_def

text \<open>
  The claim C6 as stated fails. In the first run the push is rejected after the worktree
  was created; in the second the tests fail at the quality gate. In both the removal
  would have succeeded, and in neither is \<^verbatim>\<open>deleteWorktree\<close> called.
\<close>

theorem failed_runs_keep_the_worktree_counterexample:
  "w_worktreeRemove ex_world_push_rejected = Returns ()
   \<and> fst (try_block ''/workspace'' ex_world_push_rejected ex_request
            (initial_state ex_world_push_rejected ex_request)) = Throws ''push rejected''
   \<and> x_worktreePath (fst (snd (try_block ''/workspace'' ex_world_push_rejected ex_request
            (initial_state ex_world_push_rejected ex_request)))) =
       Some ''/workspace/rocket/.worktrees/task/t1''
   \<and> deletions (snd (snd (execute ''/workspace'' ex_world_push_rejected ex_request Map.empty))) = []
   \<and> w_worktreeRemove ex_world_tests_fail = Returns ()
   \<and> tests (runAll (w_project ex_world_tests_fail)) = False
   \<and> deletions (snd (snd (execute ''/workspace'' ex_world_tests_fail ex_request Map.empty))) = []"
  by (simp add: ex_world_defs pipeline_defs)

text \<open>
  C6, as the code has it. \<^verbatim>\<open>execute\<close> deletes the worktree on the success path only:
  the run calls \<^verbatim>\<open>deleteWorktree\<close> once, on the created worktree, exactly when it
  returns a result with \<open>success = True\<close>, and never on a quality-gate failure or after
  an exception. On the success path the deletion is the last of the publishing steps:
  commit, push, the callback when the request names a callback URL, and then the
  deletion. \<^verbatim>\<open>deleteWorktree\<close> itself never throws, whatever git answers.
\<close>

theorem worktree_deleted_only_on_success:
  "deletions (snd (snd (execute root w request executions))) =
     (case fst (execute root w request executions) of
        Returns res \<Rightarrow>
          (if r_success res
           then (case w_createWorktree w of Returns wt \<Rightarrow> [wt] | Throws m \<Rightarrow> [])
           else [])
      | Throws m \<Rightarrow> [])
   \<and> (\<forall>res. fst (execute root w request executions) = Returns res \<and> r_success res \<longrightarrow>
         (\<exists>wt. w_createWorktree w = Returns wt
            \<and> publishing_steps (snd (snd (execute root w request executions))) =
                [Commit wt, Push wt (q_branchName request)]
                @ (if q_callbackUrl request = [] then []
                   else [Callback (q_callbackUrl request)
                           (res\<lparr>r_duration :=
                                  w_now w Now_success_callback - w_now w Now_start\<rparr>)])
                @ [DeleteWorktree wt]))
   \<and> deleteWorktree w path = (Returns (), [DeleteWorktree path])"
proof (intro conjI allI impI)
  show "deleteWorktree w path = (Returns (), [DeleteWorktree path])"
    by (rule deleteWorktree_returns)
  from try_block_cases[of root w request "initial_state w request"]
  consider
    (threw) m st evs where "try_block root w request (initial_state w request) = (Throws m, st, evs)"
      "deletions evs = []"
  | (gate) res st evs where "try_block root w request (initial_state w request) = (Returns res, st, evs)"
      "r_success res = False" "deletions evs = []"
  | (success) res st evs wt where "try_block root w request (initial_state w request) = (Returns res, st, evs)"
      "r_success res = True" "w_createWorktree w = Returns wt" "deletions evs = [wt]"
      "publishing_steps evs =
         [Commit wt, Push wt (q_branchName request)]
         @ (if q_callbackUrl request = [] then []
            else [Callback (q_callbackUrl request)
                    (res\<lparr>r_duration := w_now w Now_success_callback - w_now w Now_start\<rparr>)])
         @ [DeleteWorktree wt]"
    by blast
  note paths = this
  from paths show "deletions (snd (snd (execute root w request executions))) =
     (case fst (execute root w request executions) of
        Returns res \<Rightarrow>
          (if r_success res
           then (case w_createWorktree w of Returns wt \<Rightarrow> [wt] | Throws m \<Rightarrow> [])
           else [])
      | Throws m \<Rightarrow> [])"
  proof cases
    case threw
    from execute_Throws[OF threw(1), of executions] threw(2) show ?thesis
      by (auto simp: obs_append)
  next
    case gate
    from execute_Returns[OF gate(1), of executions] gate(2,3) show ?thesis by simp
  next
    case success
    from execute_Returns[OF success(1), of executions] success(2,3,4) show ?thesis by simp
  qed
  fix res
  assume ok: "fst (execute root w request executions) = Returns res \<and> r_success res"
  from paths show "\<exists>wt. w_createWorktree w = Returns wt
            \<and> publishing_steps (snd (snd (execute root w request executions))) =
                [Commit wt, Push wt (q_branchName request)]
                @ (if q_callbackUrl request = [] then []
                   else [Callback (q_callbackUrl request)
                           (res\<lparr>r_duration :=
                                  w_now w Now_success_callback - w_now w Now_start\<rparr>)])
                @ [DeleteWorktree wt]"
  proof cases
    case threw
    from execute_Throws[OF threw(1), of executions] ok show ?thesis by auto
  next
    case gate
    from execute_Returns[OF gate(1), of executions] gate(2) ok show ?thesis by simp
  next
    case success
    from execute_Returns[OF success(1), of executions] ok success show ?thesis by auto
  qed
qed

theorem worktree_deleted_only_on_success_witness:
  "fst (execute ''/workspace'' ex_world ex_request Map.empty) =
       Returns \<lparr> r_taskId = ''T1'', r_success = True, r_prUrl = None, r_error = None,
                 r_logs = ''done'', r_learnings = [], r_testsPass = True,
                 r_typecheckPass = True, r_duration = 0 \<rparr>
   \<and> deletions (snd (snd (execute ''/workspace'' ex_world ex_request Map.empty))) =
       [''/workspace/rocket/.worktrees/task/t1'']
   \<and> publishing_steps (snd (snd (execute ''/workspace'' ex_world ex_request Map.empty))) =
       [Commit ''/workspace/rocket/.worktrees/task/t1'',
        Push ''/workspace/rocket/.worktrees/task/t1'' ''task/t1'',
        Callback ''https://coordinator.example/callbacks/execution''
          \<lparr> r_taskId = ''T1'', r_success = True, r_prUrl = None, r_error = None,
            r_logs = ''done'', r_learnings = [], r_testsPass = True,
            r_typecheckPass = True, r_duration = 0 \<rparr>,
        DeleteWorktree ''/workspace/rocket/.worktrees/task/t1'']
   \<and> deleteWorktree (ex_world\<lparr>w_worktreeRemove := Throws ''locked''\<rparr>) ''/tmp/wt'' =
       (Returns (), [DeleteWorktree ''/tmp/wt''])"
proof -
  let ?res = "\<lparr> r_taskId = ''T1'', r_success = True, r_prUrl = None, r_error = None,
                 r_logs = ''done'', r_learnings = [], r_testsPass = True,
                 r_typecheckPass = True, r_duration = 0 \<rparr>"
  have r: "fst (execute ''/workspace'' ex_world ex_request Map.empty) = Returns ?res"
    by (simp add: ex_world_defs pipeline_defs)
  have c: "w_createWorktree ex_world = Returns ''/workspace/rocket/.worktrees/task/t1''"
    "q_callbackUrl ex_request = ''https://coordinator.example/callbacks/execution''"
    "q_branchName ex_request = ''task/t1''"
    "w_now ex_world Now_success_callback - w_now ex_world Now_start = 0"
    by (simp_all add: ex_world_def ex_request_def)
  from worktree_deleted_only_on_success[of "''/workspace''" ex_world ex_request Map.empty] r c
  have d: "deletions (snd (snd (execute ''/workspace'' ex_world ex_request Map.empty))) =
       [''/workspace/rocket/.worktrees/task/t1'']"
    by simp
  from worktree_deleted_only_on_success[of "''/workspace''" ex_world ex_request Map.empty] r c
  have p: "publishing_steps (snd (snd (execute ''/workspace'' ex_world ex_request Map.empty))) =
       [Commit ''/workspace/rocket/.worktrees/task/t1'',
        Push ''/workspace/rocket/.worktrees/task/t1'' ''task/t1'',
        Callback ''https://coordinator.example/callbacks/execution'' ?res,
        DeleteWorktree ''/workspace/rocket/.worktrees/task/t1'']"
    by simp
  from worktree_deleted_only_on_success[of _ "ex_world\<lparr>w_worktreeRemove := Throws ''locked''\<rparr>"
         _ _ "''/tmp/wt''"]
  have e: "deleteWorktree (ex_world\<lparr>w_worktreeRemove := Throws ''locked''\<rparr>) ''/tmp/wt'' =
       (Returns (), [DeleteWorktree ''/tmp/wt''])"
    by simp
  from r d p e show ?thesis by simp
qed

text \<open>
  The claim C5 as stated fails in the no-diff case it names: the quality gate ran and
  passed both checks, the pipeline then threw for want of changes, and the result still
  says \<open>testsPass = False\<close> and \<open>typecheckPass = False\<close>.
\<close>

theorem no_diff_reports_gate_as_failed_counterexample:
  "runAll (w_project ex_world_no_diff) =
       \<lparr> typecheck = True, tests = True, lint = True, errors = [] \<rparr>
   \<and> gate_runs (snd (snd (execute ''/workspace'' ex_world_no_diff ex_request Map.empty))) =
       [''/workspace/rocket/.worktrees/task/t1'']
   \<and> fst (execute ''/workspace'' ex_world_no_diff ex_request Map.empty) =
       Returns \<lparr> r_taskId = ''T1'', r_success = False, r_prUrl = None,
                 r_error = Some ''No changes were made'',
                 r_logs = ''done'', r_learnings = [], r_testsPass = False,
                 r_typecheckPass = False, r_duration = 0 \<rparr>"
  by (simp add: ex_world_defs pipeline_defs)

text \<open>
  C5, as the code has it. \<^verbatim>\<open>execute\<close> always returns a result and never throws.
  When the try body throws with message \<open>m\<close>, the result has \<open>success = False\<close>,
  \<open>error = m\<close> and both \<open>testsPass\<close> and \<open>typecheckPass\<close> set to \<open>False\<close>, whatever the
  quality gate had reported; that result is posted to the callback URL, once, when the
  request carries a non-empty one, and nothing is posted otherwise.
\<close>

theorem execute_catches_every_exception:
  "(\<exists>res. fst (execute root w request executions) = Returns res)
   \<and> (fst (try_block root w request (initial_state w request)) = Throws m \<longrightarrow>
        (\<exists>res. fst (execute root w request executions) = Returns res
           \<and> r_taskId res = q_taskId request
           \<and> r_success res = False
           \<and> r_error res = Some m
           \<and> r_testsPass res = False
           \<and> r_typecheckPass res = False
           \<and> callbacks (snd (snd (execute root w request executions))) =
               (if q_callbackUrl request = [] then []
                else [(q_callbackUrl request,
                       res\<lparr>r_duration := w_now w Now_catch_callback - w_now w Now_start\<rparr>)])))"
proof -
  obtain out st evs where tb: "try_block root w request (initial_state w request) = (out, st, evs)"
    by (cases "try_block root w request (initial_state w request)")
  show ?thesis
  proof (cases out)
    case (Returns res)
    with tb execute_Returns[of root w request res st evs executions] show ?thesis by simp
  next
    case (Throws m')
    with tb have t: "try_block root w request (initial_state w request) = (Throws m', st, evs)"
      by simp
    from try_block_cases[of root w request "initial_state w request"] t
    have cb: "callbacks evs = []" by auto
    from execute_Throws[OF t, of executions] cb t show ?thesis
      by (auto simp: obs_append)
  qed
qed

theorem execute_catches_every_exception_witness:
  "fst (try_block ''/workspace'' ex_world_push_rejected ex_request
          (initial_state ex_world_push_rejected ex_request)) = Throws ''push rejected''
   \<and> (\<exists>res. fst (execute ''/workspace'' ex_world_push_rejected ex_request Map.empty) = Returns res
         \<and> r_success res = False \<and> r_error res = Some ''push rejected''
         \<and> r_testsPass res = False \<and> r_typecheckPass res = False
         \<and> callbacks (snd (snd (execute ''/workspace'' ex_world_push_rejected ex_request
                                   Map.empty))) =
             [(''https://coordinator.example/callbacks/execution'', res)])"
proof -
  have h: "fst (try_block ''/workspace'' ex_world_push_rejected ex_request
          (initial_state ex_world_push_rejected ex_request)) = Throws ''push rejected''"
    by (simp add: ex_world_defs pipeline_defs)
  have u: "q_callbackUrl ex_request = ''https://coordinator.example/callbacks/execution''"
    "w_now ex_world_push_rejected Now_catch_callback - w_now ex_world_push_rejected Now_start = 0"
    by (simp_all add: ex_world_defs)
  have d: "\<And>res. fst (execute ''/workspace'' ex_world_push_rejected ex_request Map.empty) = Returns res
            \<Longrightarrow> r_duration res = 0"
    by (simp add: ex_world_defs pipeline_defs)
  from execute_catches_every_exception[of "''/workspace''" ex_world_push_rejected ex_request
         Map.empty "''push rejected''"] h
  obtain res where r: "fst (execute ''/workspace'' ex_world_push_rejected ex_request Map.empty) = Returns res"
    "r_success res = False" "r_error res = Some ''push rejected''"
    "r_testsPass res = False" "r_typecheckPass res = False"
    "callbacks (snd (snd (execute ''/workspace'' ex_world_push_rejected ex_request Map.empty))) =
       (if q_callbackUrl ex_request = [] then []
        else [(q_callbackUrl ex_request,
               res\<lparr>r_duration := w_now ex_world_push_rejected Now_catch_callback
                                  - w_now ex_world_push_rejected Now_start\<rparr>)])"
    by blast
  from d[OF r(1)] have "res\<lparr>r_duration := 0\<rparr> = res" by simp
  with r u have "callbacks (snd (snd (execute ''/workspace'' ex_world_push_rejected ex_request
                                   Map.empty))) =
             [(''https://coordinator.example/callbacks/execution'', res)]"
    by simp
  with h r show ?thesis by blast
qed

text \<open>
  C2. On a quality-gate failure the claim asks for a failure result delivered to the
  callback URL. The early \<^verbatim>\<open>return\<close> of the gate hands the result to the caller only:
  in this run the request carries a callback URL, the tests fail, the returned result
  names the failure, and the run ends after the gate without a single callback (and, as
  the claim says, without commit, push or worktree deletion).
\<close>

theorem gate_failure_is_not_called_back:
  "q_callbackUrl ex_request = ''https://coordinator.example/callbacks/execution''
   \<and> runAll (w_project ex_world_tests_fail) =
       \<lparr> typecheck = True, tests = False, lint = True,
         errors = [''Tests failed: Command failed: npm test''] \<rparr>
   \<and> fst (execute ''/workspace'' ex_world_tests_fail ex_request Map.empty) =
       Returns \<lparr> r_taskId = ''T1'', r_success = False, r_prUrl = None,
                 r_error = Some ''Quality checks failed: Tests failed: Command failed: npm test'',
                 r_logs = ''done'', r_learnings = [], r_testsPass = False,
                 r_typecheckPass = True, r_duration = 0 \<rparr>
   \<and> snd (snd (execute ''/workspace'' ex_world_tests_fail ex_request Map.empty)) =
       [CloneIfNeeded ''https://github.com/acme/app.git'' ''/workspace/rocket'',
        CreateWorktree ''task/t1'' ''main'',
        InstallDependencies ''/workspace/rocket/.worktrees/task/t1'',
        GeneratePromptFile ''/workspace/rocket/.worktrees/task/t1'' ''Add a health endpoint'' [],
        RunClaude ''/workspace/rocket/.worktrees/task/t1/.ralph/prompt.md'' 10,
        RunQualityChecks ''/workspace/rocket/.worktrees/task/t1'']
   \<and> callbacks (snd (snd (execute ''/workspace'' ex_world_tests_fail ex_request Map.empty))) = []"
  by (simp add: ex_world_defs pipeline_defs)

lemma gate_failure_ends_the_run:
  assumes "gate_runs (snd (snd (execute root w request executions))) \<noteq> []"
    and "\<not> typecheck (runAll (w_project w)) \<or> \<not> tests (runAll (w_project w))"
  shows "\<exists>res. fst (execute root w request executions) = Returns res
           \<and> r_success res = False
           \<and> r_error res = Some (''Quality checks failed: ''
                                  @ join '', '' (errors (runAll (w_project w))))
           \<and> commits (snd (snd (execute root w request executions))) = []
           \<and> pushes (snd (snd (execute root w request executions))) = []
           \<and> deletions (snd (snd (execute root w request executions))) = []
           \<and> callbacks (snd (snd (execute root w request executions))) = []"
proof -
  from try_block_cases[of root w request "initial_state w request"] assms(2)
  consider
    (threw) m st evs where
      "try_block root w request (initial_state w request) = (Throws m, st, evs)"
      "gate_runs evs = []"
  | (gate) res st evs where
      "try_block root w request (initial_state w request) = (Returns res, st, evs)"
      "r_success res = False"
      "r_error res = Some (''Quality checks failed: ''
                           @ join '', '' (errors (runAll (w_project w))))"
      "commits evs = []" "pushes evs = []" "deletions evs = []" "callbacks evs = []"
    by blast
  then show ?thesis
  proof cases
    case threw
    from execute_Throws[OF threw(1), of executions] threw(2) assms(1) show ?thesis
      by (auto simp: obs_append split: if_splits)
  next
    case gate
    from execute_Returns[OF gate(1), of executions] gate show ?thesis by simp
  qed
qed

section \<open>Facts about the Quality Gate\<close>

lemma runLint_returns: "runLint p = Returns True"
  by (cases "npm_run_lint p") (simp_all add: runLint_def)

lemma runAll_tests:
  assumes "has_package_json p"
  shows "tests (runAll p) = (case runTests p of Returns b \<Rightarrow> b | Throws m \<Rightarrow> False)"
    and "errors (runAll p) =
           (case runTypecheck p of Returns b \<Rightarrow> [] | Throws m \<Rightarrow> [''Typecheck failed: '' @ m])
           @ (case runTests p of Returns b \<Rightarrow> [] | Throws m \<Rightarrow> [''Tests failed: '' @ m])"
  using assms
  by (cases "runTypecheck p"; cases "runTests p"; simp add: runAll_def Let_def runLint_returns)+

text \<open>
  C9. The claim asks that a project without a test script gets \<open>tests = True\<close> and that
  a project whose test command exits non-zero gets \<open>tests = False\<close> with an entry added
  to the errors. \<^verbatim>\<open>runTests\<close> tells the two apart by looking for the words
  \<^verbatim>\<open>Missing script\<close> in the error message, a branch its comments and its log line
  reserve for a project that has no tests. This project has a test script; the script
  fails, \<^verbatim>\<open>npm test\<close> exits non-zero, and because the message contains those words the
  gate reports \<open>tests = True\<close> and adds no error. For a failure with any other message
  the gate answers as the claim says (\<open>runAll_tests_verdict\<close> below).
\<close>

theorem failing_test_script_passes_the_gate:
  "has_package_json ex_project_nested_missing
   \<and> npm_test ex_project_nested_missing =
       CmdFailed ''Command failed: npm test npm error Missing script: unit''
   \<and> runTests ex_project_nested_missing = Returns True
   \<and> runAll ex_project_nested_missing =
       \<lparr> typecheck = True, tests = True, lint = True, errors = [] \<rparr>"
  by (simp add: ex_project_nested_missing_def ex_project_def runAll_def runTypecheck_def
        runTests_def runLint_def Let_def)

text \<open>
  How \<^verbatim>\<open>runAll\<close> reaches the tests verdict against a project with a
  \<^verbatim>\<open>package.json\<close>: a failure of \<^verbatim>\<open>npm test\<close> whose message contains
  \<^verbatim>\<open>Missing script\<close> yields \<open>tests = True\<close> and no test error; a failure with any other
  message yields \<open>tests = False\<close> and appends the one entry
  \<^verbatim>\<open>Tests failed: <message>\<close>; a command that exits with zero yields \<open>tests = True\<close>.
\<close>

lemma runAll_tests_verdict:
  "has_package_json p \<longrightarrow>
     (\<forall>m. npm_test p = CmdFailed m \<and> str_includes m ''Missing script'' \<longrightarrow>
            tests (runAll p) = True
            \<and> errors (runAll p) =
                (case runTypecheck p of Returns b \<Rightarrow> []
                 | Throws m' \<Rightarrow> [''Typecheck failed: '' @ m']))
   \<and> (\<forall>m. npm_test p = CmdFailed m \<and> \<not> str_includes m ''Missing script'' \<longrightarrow>
            tests (runAll p) = False
            \<and> errors (runAll p) =
                (case runTypecheck p of Returns b \<Rightarrow> []
                 | Throws m' \<Rightarrow> [''Typecheck failed: '' @ m'])
                @ [''Tests failed: '' @ m]
            \<and> length (errors (runAll p)) \<ge> 1)
   \<and> (\<forall>out. npm_test p = Exited0 out \<longrightarrow> tests (runAll p) = True)"
proof (intro impI)
  assume h: "has_package_json p"
  show "(\<forall>m. npm_test p = CmdFailed m \<and> str_includes m ''Missing script'' \<longrightarrow>
            tests (runAll p) = True
            \<and> errors (runAll p) =
                (case runTypecheck p of Returns b \<Rightarrow> []
                 | Throws m' \<Rightarrow> [''Typecheck failed: '' @ m']))
   \<and> (\<forall>m. npm_test p = CmdFailed m \<and> \<not> str_includes m ''Missing script'' \<longrightarrow>
            tests (runAll p) = False
            \<and> errors (runAll p) =
                (case runTypecheck p of Returns b \<Rightarrow> []
                 | Throws m' \<Rightarrow> [''Typecheck failed: '' @ m'])
                @ [''Tests failed: '' @ m]
            \<and> length (errors (runAll p)) \<ge> 1)
   \<and> (\<forall>out. npm_test p = Exited0 out \<longrightarrow> tests (runAll p) = True)"
    by (simp add: runAll_tests[OF h] runTests_def)
qed

lemma runAll_tests_verdict_example:
  "has_package_json ex_project
   \<and> str_includes ''npm error Missing script: test'' ''Missing script''
   \<and> tests (runAll (ex_project\<lparr>npm_test := CmdFailed ''npm error Missing script: test''\<rparr>)) = True
   \<and> \<not> str_includes ''Command failed: npm test'' ''Missing script''
   \<and> tests (runAll (ex_project\<lparr>npm_test := CmdFailed ''Command failed: npm test''\<rparr>)) = False
   \<and> errors (runAll (ex_project\<lparr>npm_test := CmdFailed ''Command failed: npm test''\<rparr>)) =
       [''Tests failed: Command failed: npm test'']"
proof -
  have h: "has_package_json (ex_project\<lparr>npm_test := CmdFailed ''npm error Missing script: test''\<rparr>)"
    "has_package_json (ex_project\<lparr>npm_test := CmdFailed ''Command failed: npm test''\<rparr>)"
    "has_package_json ex_project"
    by (simp_all add: ex_project_def)
  have i: "str_includes ''npm error Missing script: test'' ''Missing script''"
    "\<not> str_includes ''Command failed: npm test'' ''Missing script''"
    by simp_all
  have t: "runTypecheck (ex_project\<lparr>npm_test := CmdFailed ''Command failed: npm test''\<rparr>) = Returns True"
    by (simp add: runTypecheck_def ex_project_def)
  from runAll_tests_verdict[of "ex_project\<lparr>npm_test := CmdFailed ''npm error Missing script: test''\<rparr>"]
    h i
  have a: "tests (runAll (ex_project\<lparr>npm_test := CmdFailed ''npm error Missing script: test''\<rparr>)) = True"
    by simp
  from runAll_tests_verdict[of "ex_project\<lparr>npm_test := CmdFailed ''Command failed: npm test''\<rparr>"]
    h i t
  have b: "tests (runAll (ex_project\<lparr>npm_test := CmdFailed ''Command failed: npm test''\<rparr>)) = False"
    "errors (runAll (ex_project\<lparr>npm_test := CmdFailed ''Command failed: npm test''\<rparr>)) =
       [''Tests failed: Command failed: npm test'']"
    by simp_all
  from h i a b show ?thesis by simp
qed

section \<open>Facts about the Execution Server\<close>

subsection \<open>Execution ids are told apart by clock reading and suffix\<close>

lemma digit_char_cases:
  assumes "d < 10"
  shows "is_digit (digit_char d)" and "of_char (digit_char d) - 48 = d"
proof -
  from assms have "d \<in> {0, 1, 2, 3, 4, 5, 6, 7, 8, 9}" by auto
  then show "is_digit (digit_char d)" "of_char (digit_char d) - 48 = d"
    by (auto simp: digit_char_def is_digit_def)
qed

lemma dec_digits: "list_all is_digit (dec n)"
proof (induction n rule: dec.induct)
  case (1 n)
  show ?case
  proof (cases "n < 10")
    case True
    then show ?thesis using digit_char_cases(1)[of n] by (simp add: dec.simps[of n])
  next
    case False
    have "is_digit (digit_char (n mod 10))"
      using digit_char_cases(1)[of "n mod 10"] by simp
    with False 1 show ?thesis by (simp add: dec.simps[of n])
  qed
qed

lemma digits_val_snoc: "digits_val (xs @ [c]) = 10 * digits_val xs + (of_char c - 48)"
  by (simp add: digits_val_def)

lemma digits_val_dec: "digits_val (dec n) = n"
proof (induction n rule: dec.induct)
  case (1 n)
  show ?case
  proof (cases "n < 10")
    case True
    then show ?thesis
      using digit_char_cases(2)[of n] by (simp add: dec.simps[of n] digits_val_def)
  next
    case False
    have "of_char (digit_char (n mod 10)) - 48 = n mod 10"
      using digit_char_cases(2)[of "n mod 10"] by simp
    with False 1 have "digits_val (dec n) = 10 * (n div 10) + n mod 10"
      by (simp add: dec.simps[of n] digits_val_snoc)
    then show ?thesis by simp
  qed
qed

lemma dec_inj: "dec a = dec b \<Longrightarrow> a = b"
proof -
  assume "dec a = dec b"
  then have "digits_val (dec a) = digits_val (dec b)" by simp
  then show "a = b" by (simp add: digits_val_dec)
qed

lemma split_at_dash:
  "list_all is_digit a \<Longrightarrow> list_all is_digit b \<Longrightarrow>
   a @ CHR ''-'' # s = b @ CHR ''-'' # s' \<Longrightarrow> a = b \<and> s = s'"
proof (induction a arbitrary: b)
  case Nil
  then show ?case by (cases b) (auto simp: is_digit_def)
next
  case (Cons x xs)
  then show ?case by (cases b) (auto simp: is_digit_def)
qed

lemma mk_executionId_eq_iff:
  "mk_executionId t r = mk_executionId t' r' \<longleftrightarrow> t = t' \<and> drop 7 r = drop 7 r'"
proof
  assume "mk_executionId t r = mk_executionId t' r'"
  then have "dec t @ CHR ''-'' # drop 7 r = dec t' @ CHR ''-'' # drop 7 r'"
    by (simp add: mk_executionId_def)
  from split_at_dash[OF dec_digits dec_digits this] show "t = t' \<and> drop 7 r = drop 7 r'"
    using dec_inj by blast
next
  assume "t = t' \<and> drop 7 r = drop 7 r'"
  then show "mk_executionId t r = mk_executionId t' r'" by (simp add: mk_executionId_def)
qed

lemma execute_registers:
  "\<exists>st. fst (snd (execute root w request executions)) =
          executions(generateExecutionId w \<mapsto> st)"
proof -
  obtain out st evs where tb: "try_block root w request (initial_state w request) = (out, st, evs)"
    by (cases "try_block root w request (initial_state w request)")
  show ?thesis
  proof (cases out)
    case (Returns res)
    with tb execute_Returns[of root w request res st evs executions] show ?thesis by auto
  next
    case (Throws m)
    with tb execute_Throws[of root w request m st evs executions] show ?thesis by auto
  qed
qed

text \<open>
  The claim C10 as stated fails. The route and the agent read the clock in the same
  millisecond and their random numbers, though different, both leave an empty suffix:
  the id in the response is the key under which the agent registered the run, and the
  status route finds it.
\<close>

theorem returned_id_found_counterexample:
  "post_execute ex_server_world ex_world_quarter ex_request Map.empty =
     (ExecutionStarted ''exec-1700000000000-'' ''T1'',
      [''exec-1700000000000-'' \<mapsto> initial_state ex_world_quarter ex_request])
   \<and> get_status (snd (post_execute ex_server_world ex_world_quarter ex_request Map.empty))
        ''exec-1700000000000-'' = StatusOk (initial_state ex_world_quarter ex_request)"
  by (simp add: post_execute_def ex_request_def ex_server_world_def mk_executionId_def
        generateExecutionId_def ex_world_quarter_def ex_world_def get_status_def getStatus_def
        digit_char_def dec.simps)

text \<open>
  C10, as the code has it. For an accepted request the id in the response is built from
  the route's own clock reading and random number, the agent's key from the agent's own;
  the run is registered under the agent's key only. The status route answers not found
  for the returned id exactly when the two draws differ, in the millisecond or in the
  random suffix, and no earlier run is registered under the returned id; this holds when
  the response is sent and after the background run has ended.
\<close>

theorem status_of_returned_id:
  "q_taskId request \<noteq> [] \<and> q_repoUrl request \<noteq> [] \<and> q_branchName request \<noteq> []
     \<and> q_prompt request \<noteq> [] \<longrightarrow>
   fst (post_execute sw w request executions) =
     ExecutionStarted (mk_executionId (s_now sw) (s_random sw)) (q_taskId request)
   \<and> dom (snd (post_execute sw w request executions)) =
       insert (mk_executionId (w_id_now w) (w_id_random w)) (dom executions)
   \<and> dom (post_execute_settled root sw w request executions) =
       insert (mk_executionId (w_id_now w) (w_id_random w)) (dom executions)
   \<and> (get_status (snd (post_execute sw w request executions))
         (mk_executionId (s_now sw) (s_random sw)) = NotFound404
       \<longleftrightarrow> (s_now sw \<noteq> w_id_now w \<or> drop 7 (s_random sw) \<noteq> drop 7 (w_id_random w))
           \<and> executions (mk_executionId (s_now sw) (s_random sw)) = None)
   \<and> (get_status (post_execute_settled root sw w request executions)
         (mk_executionId (s_now sw) (s_random sw)) = NotFound404
       \<longleftrightarrow> (s_now sw \<noteq> w_id_now w \<or> drop 7 (s_random sw) \<noteq> drop 7 (w_id_random w))
           \<and> executions (mk_executionId (s_now sw) (s_random sw)) = None)"
proof (intro impI)
  assume ok: "q_taskId request \<noteq> [] \<and> q_repoUrl request \<noteq> [] \<and> q_branchName request \<noteq> []
     \<and> q_prompt request \<noteq> []"
  let ?rid = "mk_executionId (s_now sw) (s_random sw)"
  let ?aid = "mk_executionId (w_id_now w) (w_id_random w)"
  have p: "post_execute sw w request executions =
             (ExecutionStarted ?rid (q_taskId request),
              executions(?aid \<mapsto> initial_state w request))"
    using ok by (simp add: post_execute_def generateExecutionId_def Let_def)
  obtain st where e: "post_execute_settled root sw w request executions = executions(?aid \<mapsto> st)"
    using ok execute_registers[of root w request executions]
    by (auto simp: post_execute_settled_def generateExecutionId_def)
  have eq: "?rid = ?aid \<longleftrightarrow> s_now sw = w_id_now w \<and> drop 7 (s_random sw) = drop 7 (w_id_random w)"
    by (rule mk_executionId_eq_iff)
  have nf: "\<And>m. get_status m ?rid = NotFound404 \<longleftrightarrow> m ?rid = None"
    by (simp add: get_status_def getStatus_def split: option.splits)
  show "fst (post_execute sw w request executions) =
     ExecutionStarted (mk_executionId (s_now sw) (s_random sw)) (q_taskId request)
   \<and> dom (snd (post_execute sw w request executions)) =
       insert (mk_executionId (w_id_now w) (w_id_random w)) (dom executions)
   \<and> dom (post_execute_settled root sw w request executions) =
       insert (mk_executionId (w_id_now w) (w_id_random w)) (dom executions)
   \<and> (get_status (snd (post_execute sw w request executions))
         (mk_executionId (s_now sw) (s_random sw)) = NotFound404
       \<longleftrightarrow> (s_now sw \<noteq> w_id_now w \<or> drop 7 (s_random sw) \<noteq> drop 7 (w_id_random w))
           \<and> executions (mk_executionId (s_now sw) (s_random sw)) = None)
   \<and> (get_status (post_execute_settled root sw w request executions)
         (mk_executionId (s_now sw) (s_random sw)) = NotFound404
       \<longleftrightarrow> (s_now sw \<noteq> w_id_now w \<or> drop 7 (s_random sw) \<noteq> drop 7 (w_id_random w))
           \<and> executions (mk_executionId (s_now sw) (s_random sw)) = None)"
    using eq by (auto simp: p e nf)
qed

theorem status_of_returned_id_witness:
  "q_taskId ex_request \<noteq> [] \<and> q_repoUrl ex_request \<noteq> [] \<and> q_branchName ex_request \<noteq> []
   \<and> q_prompt ex_request \<noteq> []
   \<and> fst (post_execute (ex_server_world\<lparr>s_now := 1700000000001\<rparr>) ex_world ex_request Map.empty) =
       ExecutionStarted ''exec-1700000000001-'' ''T1''
   \<and> get_status (snd (post_execute (ex_server_world\<lparr>s_now := 1700000000001\<rparr>) ex_world
                        ex_request Map.empty))
        ''exec-1700000000001-'' = NotFound404
   \<and> get_status (post_execute_settled ''/workspace'' (ex_server_world\<lparr>s_now := 1700000000001\<rparr>)
                   ex_world ex_request Map.empty)
        ''exec-1700000000001-'' = NotFound404"
proof -
  have ok: "q_taskId ex_request \<noteq> [] \<and> q_repoUrl ex_request \<noteq> [] \<and> q_branchName ex_request \<noteq> []
     \<and> q_prompt ex_request \<noteq> []" "q_taskId ex_request = ''T1''"
    by (simp_all add: ex_request_def)
  have id: "mk_executionId (s_now (ex_server_world\<lparr>s_now := 1700000000001\<rparr>))
              (s_random (ex_server_world\<lparr>s_now := 1700000000001\<rparr>)) = ''exec-1700000000001-''"
    by (simp add: mk_executionId_def ex_server_world_def dec.simps digit_char_def)
  have ne: "s_now (ex_server_world\<lparr>s_now := 1700000000001\<rparr>) \<noteq> w_id_now ex_world"
    by (simp add: ex_world_def)
  from status_of_returned_id[of ex_request "ex_server_world\<lparr>s_now := 1700000000001\<rparr>" ex_world
         Map.empty "''/workspace''"] ok ne
  show ?thesis unfolding id by simp
qed

end
